theory Spec2Isabelle
  imports Complex_Main
begin

section \<open>The regions plugin of wavesurfer.js (src/dist/plugins/regions.js)\<close>

text \<open>
  A shallow embedding of the two classes of \<^verbatim>\<open>regions.js\<close>:
  \<^verbatim>\<open>SingleRegion\<close> (one timed interval with its element and its event stream) and
  \<^verbatim>\<open>RegionsPlugin\<close> (the collection, the overlay container, virtualization and
  playback tracking).

  Names. A definition has the name of the method it embeds. \<^verbatim>\<open>_onUpdate\<close> and
  \<^verbatim>\<open>_setTotalDuration\<close> are \<open>onUpdate\<close> and \<open>setTotalDuration\<close>, and the field
  \<^verbatim>\<open>end\<close> is \<open>end'\<close>.

  Numbers. A JavaScript number is a double. The times and lengths a region stores and
  the values read from the host are finite doubles, each modelled by the \<^typ>\<open>real\<close> it
  denotes. Every arithmetic operation of the source is the operation of the doubles: the
  exact result rounded to the nearest double (\<open>fl\<close>), an infinity on overflow,
  \<^verbatim>\<open>NaN\<close> where the doubles have it (type \<open>num\<close>). The zero has no sign in the
  model.

  What is left out. The fields of a region that only carry presentation (\<^verbatim>\<open>id\<close>,
  \<^verbatim>\<open>content\<close>, \<^verbatim>\<open>contentEditable\<close>, \<^verbatim>\<open>channelIdx\<close>) and with them
  \<^verbatim>\<open>setContent\<close> and the content listeners; \<^verbatim>\<open>avoidOverlapping\<close> and
  \<^verbatim>\<open>adjustScroll\<close>, which read and write the geometry of elements only; the
  cursor feedback of \<^verbatim>\<open>toggleCursor\<close>; \<^verbatim>\<open>enableDragSelection\<close> and
  \<^verbatim>\<open>destroy\<close>.
\<close>

subsection \<open>Events and faults\<close>

text \<open>The \<^verbatim>\<open>side\<close> argument of an update: \<^verbatim>\<open>'start'\<close> or \<^verbatim>\<open>'end'\<close>; an omitted
  side is \<open>None\<close>.\<close>

datatype side = Start | End

text \<open>The events a region emits.\<close>

datatype region_event =
  Click | Over | Leave | Dblclick | Update "side option" | UpdateEnd | Play | Remove

text \<open>The two faults of the source: a property read on \<^verbatim>\<open>null\<close>, and
  \<^verbatim>\<open>Error('WaveSurfer is not initialized')\<close>.\<close>

datatype error = TypeError | NotInitialized

text \<open>A method either returns or throws; in both cases it leaves a state behind, since
  the assignments made before a \<^verbatim>\<open>throw\<close> stay.\<close>

datatype 'a outcome = Ok 'a | Throw error 'a

fun state_of :: "'a outcome \<Rightarrow> 'a" where
  "state_of (Ok s) = s"
| "state_of (Throw e s) = s"

subsection \<open>Numbers\<close>

text \<open>The values of the type Number: a finite double, by the real it denotes, the two
  infinities and \<^verbatim>\<open>NaN\<close>.\<close>

datatype num = Num real | PInf | NInf | NaN

text \<open>
  The binary exponent of a positive real: the \<open>e\<close> with \<open>2 powi e \<le> x < 2 powi (e + 1)\<close>,
  found by halving or doubling at most \<open>n\<close> times.
\<close>

fun bexp :: "nat \<Rightarrow> real \<Rightarrow> int" where
  "bexp 0 x = 0"
| "bexp (Suc n) x =
     (if 2 \<le> x then bexp n (x / 2) + 1 else if x < 1 then bexp n (x * 2) - 1 else 0)"

text \<open>The nearest integer, a tie going to the even one.\<close>

definition round_even :: "real \<Rightarrow> int" where
  "round_even y =
     (let f = \<lfloor>y\<rfloor>; d = y - of_int f
      in if d < 1 / 2 then f else if 1 / 2 < d then f + 1 else if even f then f else f + 1)"

text \<open>
  \<open>fl x\<close> is the double nearest to the real \<open>x\<close>, a tie going to the even significand
  (IEEE 754 binary64, round to nearest): the doubles around \<open>x\<close> are the multiples of
  \<open>2 powi (e - 52)\<close>, where \<open>e\<close> is the exponent of \<open>x\<close> and at least -1022 (the
  subnormal range); a result of magnitude \<open>2 powi 1024\<close> or more is an infinity. 1100
  steps find every exponent between -1022 and 1023; beyond these the exponent found makes
  no difference.
\<close>

definition fl :: "real \<Rightarrow> num" where
  "fl x =
     (if x = 0 then Num 0
      else (let e = max (bexp 1100 \<bar>x\<bar>) (- 1022);
                q = 2 powi (e - 52);
                y = q * of_int (round_even (x / q))
            in if 2 powi 1024 \<le> y then PInf
               else if y \<le> - (2 powi 1024) then NInf
               else Num y))"

text \<open>The Number that a decimal literal of the source or of a test denotes, for a
  literal within the range of the doubles.\<close>

definition lit :: "real \<Rightarrow> real" where
  "lit x = (case fl x of Num y \<Rightarrow> y | _ \<Rightarrow> 0)"

text \<open>The operators \<^verbatim>\<open>-x\<close>, \<^verbatim>\<open>+\<close>, \<^verbatim>\<open>-\<close>, \<^verbatim>\<open>*\<close> and \<^verbatim>\<open>/\<close>.\<close>

fun js_neg :: "num \<Rightarrow> num" where
  "js_neg (Num a) = Num (- a)"
| "js_neg PInf = NInf"
| "js_neg NInf = PInf"
| "js_neg NaN = NaN"

fun js_add :: "num \<Rightarrow> num \<Rightarrow> num" where
  "js_add (Num a) (Num b) = fl (a + b)"
| "js_add NaN b = NaN"
| "js_add a NaN = NaN"
| "js_add PInf NInf = NaN"
| "js_add NInf PInf = NaN"
| "js_add PInf b = PInf"
| "js_add NInf b = NInf"
| "js_add a PInf = PInf"
| "js_add a NInf = NInf"

definition js_sub :: "num \<Rightarrow> num \<Rightarrow> num" where
  "js_sub a b = js_add a (js_neg b)"

text \<open>The sign of a number other than \<^verbatim>\<open>NaN\<close> and 0.\<close>

fun positive :: "num \<Rightarrow> bool" where
  "positive (Num a) = (0 < a)"
| "positive PInf = True"
| "positive NInf = False"
| "positive NaN = False"

fun js_mul :: "num \<Rightarrow> num \<Rightarrow> num" where
  "js_mul (Num a) (Num b) = fl (a * b)"
| "js_mul NaN b = NaN"
| "js_mul a NaN = NaN"
| "js_mul a b =
     (if a = Num 0 \<or> b = Num 0 then NaN
      else if positive a = positive b then PInf else NInf)"

fun js_div :: "num \<Rightarrow> num \<Rightarrow> num" where
  "js_div (Num a) (Num b) =
     (if b = 0 then (if a = 0 then NaN else if 0 < a then PInf else NInf) else fl (a / b))"
| "js_div NaN b = NaN"
| "js_div a NaN = NaN"
| "js_div (Num a) b = Num 0"
| "js_div a (Num b) = (if positive a = (0 \<le> b) then PInf else NInf)"
| "js_div a b = NaN"

text \<open>The comparisons \<^verbatim>\<open><=\<close>, \<^verbatim>\<open><\<close>, \<^verbatim>\<open>>=\<close> and \<^verbatim>\<open>>\<close>: false when an operand
  is \<^verbatim>\<open>NaN\<close>.\<close>

fun js_le :: "num \<Rightarrow> num \<Rightarrow> bool" where
  "js_le (Num a) (Num b) = (a \<le> b)"
| "js_le NaN b = False"
| "js_le a NaN = False"
| "js_le NInf b = True"
| "js_le a PInf = True"
| "js_le a b = False"

fun js_lt :: "num \<Rightarrow> num \<Rightarrow> bool" where
  "js_lt (Num a) (Num b) = (a < b)"
| "js_lt NaN b = False"
| "js_lt a NaN = False"
| "js_lt PInf b = False"
| "js_lt a NInf = False"
| "js_lt a b = True"

definition js_ge :: "num \<Rightarrow> num \<Rightarrow> bool" where
  "js_ge a b = js_le b a"

definition js_gt :: "num \<Rightarrow> num \<Rightarrow> bool" where
  "js_gt a b = js_lt b a"

text \<open>\<^verbatim>\<open>Math.round\<close>: the nearest integer, a tie going up.\<close>

fun math_round :: "num \<Rightarrow> num" where
  "math_round (Num x) = Num (of_int \<lfloor>x + 1 / 2\<rfloor>)"
| "math_round a = a"

text \<open>\<^verbatim>\<open>w || 1\<close>: 0 and \<^verbatim>\<open>NaN\<close> are the numbers that count as false.\<close>

definition or_one :: "num \<Rightarrow> num" where
  "or_one w = (if w = Num 0 \<or> w = NaN then Num 1 else w)"

text \<open>The value of \<^verbatim>\<open>maxLength\<close>: a finite number or \<^verbatim>\<open>Infinity\<close>.\<close>

datatype jsmax = Finite real | Infinity

fun num_of_max :: "jsmax \<Rightarrow> num" where
  "num_of_max (Finite m) = Num m"
| "num_of_max Infinity = PInf"

subsection \<open>SingleRegion\<close>

text \<open>The draggables a region holds in \<^verbatim>\<open>this.subscriptions\<close>: the one of the
  element (\<^verbatim>\<open>onMove\<close>) and those of the two resize handles.\<close>

datatype subscription = DragSub | ResizeStartSub | ResizeEndSub

text \<open>The element of a region: the two percentages \<^verbatim>\<open>renderPosition\<close> writes
  (the number before the \<^verbatim>\<open>%\<close>, kept as it is handed over, \<^verbatim>\<open>NaN\<close> included;
  \<open>None\<close> as long as the style is not set), the cursor, the background colour, the
  \<^verbatim>\<open>part\<close> attribute (marker or region) and whether the two handle elements are
  children of it.\<close>

datatype cursor = Grab | Grabbing | Default

record element =
  style_left :: "num option"
  style_right :: "num option"
  style_cursor :: cursor
  backgroundColor :: string
  part_marker :: bool
  handles :: bool

record region =
  totalDuration :: real
  start :: real
  end' :: real
  minLength :: real
  maxLength :: jsmax
  drag :: bool
  resize :: bool
  color :: string
  element :: "element option"
  subscriptions :: "(subscription \<times> bool) list"
  events :: "region_event list"

text \<open>
  \<open>element\<close> is \<open>None\<close> once \<^verbatim>\<open>remove\<close> has set \<^verbatim>\<open>this.element = null\<close>.
  \<open>subscriptions\<close> is the array \<^verbatim>\<open>this.subscriptions\<close>: each draggable with
  \<open>True\<close> while it listens and \<open>False\<close> once its unsubscribe function has been
  called. \<open>events\<close> is the log of what the region has emitted, oldest first.
\<close>

record params =
  p_start :: real
  p_end :: "real option"
  p_drag :: "bool option"
  p_resize :: "bool option"
  p_color :: "string option"
  p_minLength :: "real option"
  p_maxLength :: "jsmax option"

record options =
  o_color :: "string option"
  o_drag :: "bool option"
  o_start :: "real option"
  o_end :: "real option"
  o_resize :: "bool option"

definition emit :: "region_event \<Rightarrow> region \<Rightarrow> region" where
  "emit ev r = r\<lparr>events := events r @ [ev]\<rparr>"

definition clampPosition :: "region \<Rightarrow> real \<Rightarrow> real" where
  "clampPosition r time = max 0 (min (totalDuration r) time)"

definition isMarker :: "region \<Rightarrow> bool" where
  "isMarker r = (start r = end' r)"

definition renderPosition :: "region \<Rightarrow> region outcome" where
  "renderPosition r =
     (case element r of
        None \<Rightarrow> Throw TypeError r
      | Some e \<Rightarrow>
          (let start_q = js_div (Num (start r)) (Num (totalDuration r));
               end_q = js_div (js_sub (Num (totalDuration r)) (Num (end' r)))
                         (Num (totalDuration r))
           in Ok (r\<lparr>element := Some (e\<lparr>style_left := Some (js_mul start_q (Num 100)),
                                         style_right := Some (js_mul end_q (Num 100))\<rparr>)\<rparr>)))"

definition setPart :: "region \<Rightarrow> region outcome" where
  "setPart r =
     (case element r of
        None \<Rightarrow> Throw TypeError r
      | Some e \<Rightarrow> Ok (r\<lparr>element := Some (e\<lparr>part_marker := isMarker r\<rparr>)\<rparr>))"

text \<open>\<^verbatim>\<open>addResizeHandles\<close>: two handle elements, and their two draggables pushed.\<close>

definition addResizeHandles :: "element \<Rightarrow> region \<Rightarrow> element \<times> region" where
  "addResizeHandles e r =
     (e\<lparr>handles := True\<rparr>,
      r\<lparr>subscriptions := subscriptions r @ [(ResizeStartSub, True), (ResizeEndSub, True)]\<rparr>)"

definition initElement :: "region \<Rightarrow> element \<times> region" where
  "initElement r =
     (let e = \<lparr>style_left = None, style_right = None,
                style_cursor = (if drag r then Grab else Default),
                backgroundColor = (if isMarker r then ''none'' else color r),
                part_marker = False, handles = False\<rparr>
      in if \<not> isMarker r \<and> resize r then addResizeHandles e r else (e, r))"

text \<open>The constructor. \<^verbatim>\<open>clampPosition\<close> reads \<^verbatim>\<open>this.totalDuration\<close>, which is
  assigned first.\<close>

definition SingleRegion :: "params \<Rightarrow> real \<Rightarrow> region" where
  "SingleRegion p duration =
     (let r0 = \<lparr>totalDuration = duration, start = 0, end' = 0, minLength = 0,
                 maxLength = Infinity, drag = True, resize = True,
                 color = ''rgba(0, 0, 0, 0.1)'', element = None, subscriptions = [],
                 events = []\<rparr>;
          r1 = r0\<lparr>start := clampPosition r0 (p_start p)\<rparr>;
          r2 = r1\<lparr>end' := clampPosition r1 (case p_end p of Some x \<Rightarrow> x | None \<Rightarrow> p_start p)\<rparr>;
          r3 = r2\<lparr>drag := (case p_drag p of Some b \<Rightarrow> b | None \<Rightarrow> True),
                  resize := (case p_resize p of Some b \<Rightarrow> b | None \<Rightarrow> True),
                  color := (case p_color p of Some c \<Rightarrow> c | None \<Rightarrow> ''rgba(0, 0, 0, 0.1)''),
                  minLength := (case p_minLength p of Some m \<Rightarrow> m | None \<Rightarrow> minLength r2),
                  maxLength := (case p_maxLength p of Some m \<Rightarrow> m | None \<Rightarrow> maxLength r2)\<rparr>;
          (e, r4) = initElement r3;
          r5 = r4\<lparr>element := Some e\<rparr>;
          r6 = state_of (setPart r5);
          r7 = state_of (renderPosition r6)
      in r7\<lparr>subscriptions := subscriptions r7 @ [(DragSub, True)]\<rparr>)"

text \<open>
  \<^verbatim>\<open>_onUpdate(dx, side)\<close>. The second argument is what the source reads from the
  document: \<open>None\<close> when the element has no \<^verbatim>\<open>parentElement\<close>, and the width of the
  parent's bounding rectangle otherwise.
\<close>

definition deltaSeconds :: "region \<Rightarrow> real \<Rightarrow> real \<Rightarrow> num" where
  "deltaSeconds r width dx = js_mul (js_div (Num dx) (Num width)) (Num (totalDuration r))"

definition newStart :: "region \<Rightarrow> num \<Rightarrow> side option \<Rightarrow> num" where
  "newStart r delta sd =
     (if sd = None \<or> sd = Some Start then js_add (Num (start r)) delta else Num (start r))"

definition newEnd :: "region \<Rightarrow> num \<Rightarrow> side option \<Rightarrow> num" where
  "newEnd r delta sd =
     (if sd = None \<or> sd = Some End then js_add (Num (end' r)) delta else Num (end' r))"

text \<open>The condition of the \<^verbatim>\<open>if\<close>, on the candidate \<open>ns\<close>, \<open>ne\<close>.\<close>

definition guard :: "region \<Rightarrow> num \<Rightarrow> num \<Rightarrow> bool" where
  "guard r ns ne =
     (let len = js_sub ne ns
      in js_ge ns (Num 0) \<and> js_le ne (Num (totalDuration r)) \<and> js_le ns ne \<and>
         js_ge len (Num (minLength r)) \<and> js_le len (num_of_max (maxLength r)))"

text \<open>
  A candidate that passes the guard lies between 0 and \<^verbatim>\<open>totalDuration\<close>, so both
  its numbers are finite (lemma \<open>guard_finite\<close> below); the last case of the
  \<^theory_text>\<open>case\<close> does not occur.
\<close>

definition onUpdate :: "region \<Rightarrow> real option \<Rightarrow> real \<Rightarrow> side option \<Rightarrow> region outcome" where
  "onUpdate r parent dx sd =
     (case element r of
        None \<Rightarrow> Throw TypeError r
      | Some e \<Rightarrow>
          (case parent of
             None \<Rightarrow> Ok r
           | Some width \<Rightarrow>
               (let delta = deltaSeconds r width dx;
                    ns = newStart r delta sd;
                    ne = newEnd r delta sd
                in if guard r ns ne
                   then (case (ns, ne) of
                           (Num a, Num b) \<Rightarrow>
                             (case renderPosition (r\<lparr>start := a, end' := b\<rparr>) of
                                Ok r' \<Rightarrow> Ok (emit (Update sd) r')
                              | Throw err r' \<Rightarrow> Throw err r')
                         | _ \<Rightarrow> Ok r)
                   else Ok r)))"

definition onMove :: "region \<Rightarrow> real option \<Rightarrow> real \<Rightarrow> region outcome" where
  "onMove r parent dx = (if \<not> drag r then Ok r else onUpdate r parent dx None)"

definition onResize :: "region \<Rightarrow> real option \<Rightarrow> real \<Rightarrow> side \<Rightarrow> region outcome" where
  "onResize r parent dx sd = (if \<not> resize r then Ok r else onUpdate r parent dx (Some sd))"

definition onEndResizing :: "region \<Rightarrow> region" where
  "onEndResizing r = (if \<not> resize r then r else emit UpdateEnd r)"

definition setTotalDuration :: "region \<Rightarrow> real \<Rightarrow> region outcome" where
  "setTotalDuration r duration = renderPosition (r\<lparr>totalDuration := duration\<rparr>)"

definition play :: "region \<Rightarrow> region" where
  "play r = emit Play r"

text \<open>The four listeners that \<^verbatim>\<open>initMouseEvents\<close> adds to the element for
  \<^verbatim>\<open>click\<close>, \<^verbatim>\<open>mouseenter\<close>, \<^verbatim>\<open>mouseleave\<close> and \<^verbatim>\<open>dblclick\<close>. Nothing in
  the source takes them off the element.\<close>

datatype mouse = MouseClick | MouseEnter | MouseLeave | MouseDblclick

fun onMouse :: "mouse \<Rightarrow> region \<Rightarrow> region" where
  "onMouse MouseClick r = emit Click r"
| "onMouse MouseEnter r = emit Over r"
| "onMouse MouseLeave r = emit Leave r"
| "onMouse MouseDblclick r = emit Dblclick r"

text \<open>Sequencing: a statement after a \<^verbatim>\<open>throw\<close> does not run.\<close>

fun and_then :: "'a outcome \<Rightarrow> ('a \<Rightarrow> 'a outcome) \<Rightarrow> 'a outcome" where
  "and_then (Ok s) f = f s"
| "and_then (Throw e s) f = Throw e s"

text \<open>
  \<^verbatim>\<open>setOptions\<close>, one definition for each \<^verbatim>\<open>if\<close> of the source, in its order.
  \<^verbatim>\<open>if (options.color)\<close> is false for the empty string too.
\<close>

definition setOptions_color :: "options \<Rightarrow> region \<Rightarrow> region outcome" where
  "setOptions_color opts r =
     (case o_color opts of
        None \<Rightarrow> Ok r
      | Some c \<Rightarrow>
          if c = [] then Ok r
          else (let r1 = r\<lparr>color := c\<rparr>
                in case element r1 of
                     None \<Rightarrow> Throw TypeError r1
                   | Some e \<Rightarrow> Ok (r1\<lparr>element := Some (e\<lparr>backgroundColor := c\<rparr>)\<rparr>)))"

definition setOptions_drag :: "options \<Rightarrow> region \<Rightarrow> region outcome" where
  "setOptions_drag opts r =
     (case o_drag opts of
        None \<Rightarrow> Ok r
      | Some d \<Rightarrow>
          (let r1 = r\<lparr>drag := d\<rparr>
           in case element r1 of
                None \<Rightarrow> Throw TypeError r1
              | Some e \<Rightarrow>
                  Ok (r1\<lparr>element := Some (e\<lparr>style_cursor := (if d then Grab else Default)\<rparr>)\<rparr>)))"

text \<open>The new \<^verbatim>\<open>end\<close> of a marker whose \<^verbatim>\<open>end\<close> is not given is the start just
  assigned.\<close>

definition setOptions_position :: "options \<Rightarrow> region \<Rightarrow> region outcome" where
  "setOptions_position opts r =
     (if o_start opts \<noteq> None \<or> o_end opts \<noteq> None
      then (let marker = isMarker r;
                r1 = r\<lparr>start := clampPosition r (case o_start opts of Some x \<Rightarrow> x | None \<Rightarrow> start r)\<rparr>;
                r2 = r1\<lparr>end' := clampPosition r1
                        (case o_end opts of
                           Some x \<Rightarrow> x
                         | None \<Rightarrow> (if marker then start r1 else end' r1))\<rparr>
            in and_then (renderPosition r2) setPart)
      else Ok r)"

text \<open>
  \<^verbatim>\<open>removeResizeHandles\<close> reads \<^verbatim>\<open>element.querySelector\<close> and throws on
  \<^verbatim>\<open>null\<close>. It removes the handle elements and leaves their draggables subscribed.
  \<^verbatim>\<open>addResizeHandles\<close> on \<^verbatim>\<open>null\<close> creates two handles without a parent and pushes
  their draggables (\<^verbatim>\<open>createElement\<close> of \<^verbatim>\<open>dom.js\<close>, which is not among the
  sources, is taken to accept a missing parent).
\<close>

definition setOptions_resize :: "options \<Rightarrow> region \<Rightarrow> region outcome" where
  "setOptions_resize opts r =
     (case o_resize opts of
        None \<Rightarrow> Ok r
      | Some b \<Rightarrow>
          if b = resize r then Ok r
          else (let marker = isMarker r; r1 = r\<lparr>resize := b\<rparr>
                in if b \<and> \<not> marker
                   then (case element r1 of
                           None \<Rightarrow>
                             Ok (r1\<lparr>subscriptions := subscriptions r1 @
                                    [(ResizeStartSub, True), (ResizeEndSub, True)]\<rparr>)
                         | Some e \<Rightarrow>
                             (let (e', r2) = addResizeHandles e r1 in Ok (r2\<lparr>element := Some e'\<rparr>)))
                   else (case element r1 of
                           None \<Rightarrow> Throw TypeError r1
                         | Some e \<Rightarrow> Ok (r1\<lparr>element := Some (e\<lparr>handles := False\<rparr>)\<rparr>))))"

definition setOptions :: "region \<Rightarrow> options \<Rightarrow> region outcome" where
  "setOptions r opts =
     and_then (and_then (and_then (setOptions_color opts r) (setOptions_drag opts))
                 (setOptions_position opts)) (setOptions_resize opts)"

text \<open>
  \<^verbatim>\<open>remove\<close>, as far as the region itself goes: the event, the unsubscribing of every
  draggable, and \<^verbatim>\<open>this.element = null\<close>. \<^verbatim>\<open>this.element.remove()\<close> throws on a
  region removed before. What the call does to the document and what the listeners of
  the event do is in \<open>region_remove\<close> below.
\<close>

definition remove :: "region \<Rightarrow> region outcome" where
  "remove r =
     (let r1 = emit Remove r;
          r2 = r1\<lparr>subscriptions := map (\<lambda>(k, live). (k, False)) (subscriptions r1)\<rparr>
      in case element r2 of
           None \<Rightarrow> Throw TypeError r2
         | Some e \<Rightarrow> Ok (r2\<lparr>element := None\<rparr>))"

subsection \<open>RegionsPlugin: the state\<close>

text \<open>
  Objects are shared in the source: the same region is in \<^verbatim>\<open>this.regions\<close>, in the
  \<^verbatim>\<open>activeRegions\<close> of the playback listener and in the hands of the caller, and
  \<^verbatim>\<open>getRegions\<close> hands out the array itself. So regions and arrays live in two
  stores, and the state holds references to them.
\<close>

type_synonym ref = nat

type_synonym aref = nat

text \<open>What the plugin reads from the host (\<^verbatim>\<open>this.wavesurfer\<close>) and from the
  document: \<^verbatim>\<open>getDuration()\<close>, \<^verbatim>\<open>getScroll()\<close>, \<^verbatim>\<open>getWidth()\<close>, the
  \<^verbatim>\<open>clientWidth\<close> of the regions container, and the width of its bounding
  rectangle.\<close>

record host =
  getDuration :: real
  getScroll :: real
  getWidth :: real
  container_clientWidth :: real
  container_width :: real

text \<open>The events the plugin emits, and what it tells the host to do on \<^verbatim>\<open>play\<close>.\<close>

datatype plugin_event =
  RegionCreated ref
  | RegionUpdate ref "side option"
  | RegionUpdated ref
  | RegionClicked ref
  | RegionDoubleClicked ref
  | RegionRemoved ref
  | RegionIn ref
  | RegionOut ref

datatype host_command = HostPlay | SetTime real

text \<open>A change of the child list of the regions container.\<close>

datatype dom_op = Attach ref | Detach ref

record plugin =
  wavesurfer :: "host option"
  heap :: "ref \<Rightarrow> region option"
  arrays :: "aref \<Rightarrow> ref list option"
  next_ref :: ref
  next_array :: aref
  regions :: aref
  activeRegions :: "aref option"
  children :: "ref list"
  dom_log :: "dom_op list"
  emitted :: "plugin_event list"
  commands :: "host_command list"
  subscribed :: "ref list"
  ready_once :: "ref list"
  timers :: "(ref \<times> bool) list"
  scroll_listeners :: "ref list"
  remove_once :: "ref list"

text \<open>
  \<^item> \<open>heap\<close>, \<open>arrays\<close>: the region objects and the array objects; \<open>next_ref\<close> and
    \<open>next_array\<close> are the next free references.
  \<^item> \<open>regions\<close>: \<^verbatim>\<open>this.regions\<close>. \<open>activeRegions\<close>: the variable of that name
    which the \<^verbatim>\<open>timeupdate\<close> listener of \<^verbatim>\<open>onInit\<close> closes over; \<open>None\<close> as long as
    \<^verbatim>\<open>onInit\<close> has not subscribed the listener.
  \<^item> \<open>children\<close>: the elements that are children of the regions container, each named
    by its region, in document order. \<open>dom_log\<close>: every change of that list.
  \<^item> \<open>emitted\<close>, \<open>commands\<close>: the events emitted by the plugin and the calls made on
    the host, oldest first.
  \<^item> \<open>subscribed\<close>: the regions on which the listeners of \<^verbatim>\<open>saveRegion\<close>
    (\<^verbatim>\<open>regionSubscriptions\<close>) are subscribed.
  \<^item> \<open>ready_once\<close>: the regions whose \<^verbatim>\<open>once('ready', ...)\<close> listener of
    \<^verbatim>\<open>addRegion\<close> waits.
  \<^item> \<open>timers\<close>: the \<^verbatim>\<open>setTimeout(..., 0)\<close> callbacks of \<^verbatim>\<open>virtualAppend\<close> that
    have not run, each with its region and whether the \<^verbatim>\<open>element\<close> argument it closes
    over is an element (\<open>True\<close>) or \<^verbatim>\<open>null\<close>.
  \<^item> \<open>scroll_listeners\<close>: the regions whose \<^verbatim>\<open>renderIfVisible\<close> listens to
    \<^verbatim>\<open>scroll\<close>; \<open>remove_once\<close>: the regions that carry the
    \<^verbatim>\<open>once('remove', unsubscribe)\<close> of \<^verbatim>\<open>virtualAppend\<close>.

  Listeners of the caller are not part of the state: the model is the plugin with its own
  listeners only.
\<close>

definition array_of :: "plugin \<Rightarrow> aref \<Rightarrow> ref list" where
  "array_of s a = (case arrays s a of Some xs \<Rightarrow> xs | None \<Rightarrow> [])"

text \<open>A new array object with the given elements (an array literal, \<^verbatim>\<open>filter\<close>,
  \<^verbatim>\<open>slice\<close>).\<close>

definition new_array :: "ref list \<Rightarrow> plugin \<Rightarrow> aref \<times> plugin" where
  "new_array xs s =
     (next_array s, s\<lparr>arrays := (arrays s)(next_array s \<mapsto> xs), next_array := Suc (next_array s)\<rparr>)"

text \<open>An assignment to the elements of an existing array object (\<^verbatim>\<open>push\<close>,
  \<^verbatim>\<open>pop\<close>, \<^verbatim>\<open>splice\<close>, \<^verbatim>\<open>length = 0\<close>, ...).\<close>

definition array_write :: "plugin \<Rightarrow> aref \<Rightarrow> ref list \<Rightarrow> plugin" where
  "array_write s a xs = s\<lparr>arrays := (arrays s)(a \<mapsto> xs)\<rparr>"

definition emit_plugin :: "plugin_event \<Rightarrow> plugin \<Rightarrow> plugin" where
  "emit_plugin ev s = s\<lparr>emitted := emitted s @ [ev]\<rparr>"

text \<open>The constructor of the plugin: \<^verbatim>\<open>this.regions = []\<close> and an empty container.\<close>

definition create :: plugin where
  "create =
     \<lparr>wavesurfer = None, heap = (\<lambda>r. None), arrays = [0 \<mapsto> []], next_ref = 0, next_array = 1,
      regions = 0, activeRegions = None, children = [], dom_log = [], emitted = [],
      commands = [], subscribed = [], ready_once = [], timers = [], scroll_listeners = [],
      remove_once = []\<rparr>"

text \<open>\<^verbatim>\<open>onInit\<close>: the variable \<^verbatim>\<open>activeRegions\<close> and the \<^verbatim>\<open>timeupdate\<close>
  listener that closes over it.\<close>

definition onInit :: "plugin \<Rightarrow> plugin outcome" where
  "onInit s =
     (case wavesurfer s of
        None \<Rightarrow> Throw NotInitialized s
      | Some h \<Rightarrow> (let (a, s1) = new_array [] s in Ok (s1\<lparr>activeRegions := Some a\<rparr>)))"

text \<open>
  Modelled from the spec: \<^verbatim>\<open>base-plugin.js\<close> is not among the sources. The host
  registers a plugin by storing itself in \<^verbatim>\<open>this.wavesurfer\<close> and calling
  \<^verbatim>\<open>onInit\<close> (the source says of \<^verbatim>\<open>onInit\<close>: called by wavesurfer).
\<close>

definition init :: "plugin \<Rightarrow> host \<Rightarrow> plugin outcome" where
  "init s h = onInit (s\<lparr>wavesurfer := Some h\<rparr>)"

subsection \<open>Playback tracking\<close>

text \<open>The predicate of the \<^verbatim>\<open>filter\<close> in the \<^verbatim>\<open>timeupdate\<close> listener; \<open>lit (5 / 100)\<close>
  is the literal \<^verbatim>\<open>0.05\<close>.\<close>

definition played :: "region \<Rightarrow> real \<Rightarrow> bool" where
  "played region currentTime =
     (start region \<le> currentTime \<and>
      js_ge (if end' region = start region
             then js_add (Num (start region)) (Num (lit (5 / 100)))
             else Num (end' region))
        (Num currentTime))"

definition playedRegions :: "plugin \<Rightarrow> real \<Rightarrow> ref list" where
  "playedRegions s currentTime =
     filter (\<lambda>x. case heap s x of Some region \<Rightarrow> played region currentTime | None \<Rightarrow> False)
       (array_of s (regions s))"

text \<open>The two \<^verbatim>\<open>forEach\<close> loops of the listener.\<close>

fun region_in_loop :: "ref list \<Rightarrow> ref list \<Rightarrow> plugin \<Rightarrow> plugin" where
  "region_in_loop active [] s = s"
| "region_in_loop active (region # rest) s =
     region_in_loop active rest
       (if region \<notin> set active then emit_plugin (RegionIn region) s else s)"

fun region_out_loop :: "ref list \<Rightarrow> ref list \<Rightarrow> plugin \<Rightarrow> plugin" where
  "region_out_loop playedNow [] s = s"
| "region_out_loop playedNow (region # rest) s =
     region_out_loop playedNow rest
       (if region \<notin> set playedNow then emit_plugin (RegionOut region) s else s)"

text \<open>The host emits \<^verbatim>\<open>timeupdate\<close> with the current time.\<close>

definition timeupdate :: "plugin \<Rightarrow> real \<Rightarrow> plugin" where
  "timeupdate s currentTime =
     (case activeRegions s of
        None \<Rightarrow> s
      | Some active \<Rightarrow>
          (let (p, s1) = new_array (playedRegions s currentTime) s;
               s2 = region_in_loop (array_of s1 active) (array_of s1 p) s1;
               s3 = region_out_loop (array_of s2 p) (array_of s2 active) s2
           in s3\<lparr>activeRegions := Some p\<rparr>))"

definition getRegions :: "plugin \<Rightarrow> aref" where
  "getRegions s = regions s"

subsection \<open>Virtualization\<close>

text \<open>
  \<^verbatim>\<open>container.appendChild(element)\<close> and \<^verbatim>\<open>element.remove()\<close> as the document
  does them: appending an element that has a parent takes it out of its place first and
  puts it last; removing an element that has no parent does nothing.
\<close>

definition appendChild :: "plugin \<Rightarrow> ref \<Rightarrow> plugin" where
  "appendChild s x =
     s\<lparr>children := removeAll x (children s) @ [x],
       dom_log := dom_log s @ (if x \<in> set (children s) then [Detach x] else []) @ [Attach x]\<rparr>"

definition remove_element :: "plugin \<Rightarrow> ref \<Rightarrow> plugin" where
  "remove_element s x =
     (if x \<in> set (children s)
      then s\<lparr>children := removeAll x (children s), dom_log := dom_log s @ [Detach x]\<rparr>
      else s)"

text \<open>The test of \<^verbatim>\<open>renderIfVisible\<close>.\<close>

definition isVisible :: "host \<Rightarrow> region \<Rightarrow> bool" where
  "isVisible h region =
     (let clientWidth = Num (getWidth h);
          scrollLeft = Num (getScroll h);
          scrollWidth = Num (container_clientWidth h);
          duration = Num (getDuration h);
          start_px = math_round (js_mul (js_div (Num (start region)) duration) scrollWidth);
          width = or_one (math_round
                    (js_mul (js_div (js_sub (Num (end' region)) (Num (start region))) duration)
                       scrollWidth))
      in js_gt (js_add start_px width) scrollLeft \<and>
         js_lt start_px (js_add scrollLeft clientWidth))"

definition renderIfVisible :: "plugin \<Rightarrow> ref \<Rightarrow> plugin" where
  "renderIfVisible s x =
     (case wavesurfer s of
        None \<Rightarrow> s
      | Some h \<Rightarrow>
          (case heap s x of
             None \<Rightarrow> s
           | Some region \<Rightarrow> if isVisible h region then appendChild s x else remove_element s x))"

text \<open>\<^verbatim>\<open>virtualAppend(region, container, element)\<close> only sets a timer.\<close>

definition virtualAppend :: "plugin \<Rightarrow> ref \<Rightarrow> bool \<Rightarrow> plugin" where
  "virtualAppend s x has_element = s\<lparr>timers := timers s @ [(x, has_element)]\<rparr>"

text \<open>
  The callback of the timer. With \<^verbatim>\<open>null\<close> for the element, \<^verbatim>\<open>renderIfVisible\<close>
  throws in \<^verbatim>\<open>appendChild\<close> or in \<^verbatim>\<open>element.remove()\<close>, and the callback ends
  there, before it subscribes anything.
\<close>

definition run_timer :: "plugin \<Rightarrow> ref \<times> bool \<Rightarrow> plugin" where
  "run_timer s t =
     (case wavesurfer s of
        None \<Rightarrow> s
      | Some h \<Rightarrow>
          if \<not> snd t then s
          else (let s1 = renderIfVisible s (fst t)
                in s1\<lparr>scroll_listeners := scroll_listeners s1 @ [fst t],
                      remove_once := remove_once s1 @ [fst t]\<rparr>))"

text \<open>The event loop runs the timers that are due, in their order.\<close>

definition run_timers :: "plugin \<Rightarrow> plugin" where
  "run_timers s = foldl run_timer (s\<lparr>timers := []\<rparr>) (timers s)"

text \<open>The host scrolls to a position and emits \<^verbatim>\<open>scroll\<close>.\<close>

definition scroll :: "plugin \<Rightarrow> real \<Rightarrow> plugin" where
  "scroll s position =
     (let s1 = s\<lparr>wavesurfer := map_option (\<lambda>h. h\<lparr>getScroll := position\<rparr>) (wavesurfer s)\<rparr>
      in foldl renderIfVisible s1 (scroll_listeners s1))"

subsection \<open>The plugin's listeners on a region\<close>

text \<open>
  The array \<^verbatim>\<open>regionSubscriptions\<close> of \<^verbatim>\<open>saveRegion\<close>, one equation for each
  listener. A region is saved once (by \<^verbatim>\<open>addRegion\<close>, by its \<^verbatim>\<open>ready\<close>
  listener, or at the end of a drag selection), so unsubscribing its listeners takes the
  region out of \<open>subscribed\<close>. \<^verbatim>\<open>adjustScroll\<close> in the \<^verbatim>\<open>update\<close> listener is
  left out (see the head of the theory), and so is the pointer event that \<^verbatim>\<open>click\<close>
  and \<^verbatim>\<open>dblclick\<close> carry.
\<close>

fun on_region_event :: "plugin \<Rightarrow> ref \<Rightarrow> region_event \<Rightarrow> plugin" where
  "on_region_event s x (Update sd) = emit_plugin (RegionUpdate x sd) s"
| "on_region_event s x UpdateEnd = emit_plugin (RegionUpdated x) s"
| "on_region_event s x Play =
     (case wavesurfer s of
        None \<Rightarrow> s
      | Some h \<Rightarrow>
          (case heap s x of
             None \<Rightarrow> s
           | Some region \<Rightarrow> s\<lparr>commands := commands s @ [HostPlay, SetTime (start region)]\<rparr>))"
| "on_region_event s x Click = emit_plugin (RegionClicked x) s"
| "on_region_event s x Dblclick = emit_plugin (RegionDoubleClicked x) s"
| "on_region_event s x Remove =
     (let s1 = s\<lparr>subscribed := removeAll x (subscribed s)\<rparr>;
          (a, s2) = new_array (filter (\<lambda>reg. reg \<noteq> x) (array_of s1 (regions s1))) s1
      in emit_plugin (RegionRemoved x) (s2\<lparr>regions := a\<rparr>))"
| "on_region_event s x Over = s"
| "on_region_event s x Leave = s"

text \<open>
  Modelled from the spec: \<^verbatim>\<open>event-emitter.js\<close> is not among the sources. \<^verbatim>\<open>emit\<close>
  calls the listeners of the event at once and in the order of their subscription; a
  listener subscribed with \<^verbatim>\<open>once\<close> is called for the first emission only; the
  function that \<^verbatim>\<open>on\<close> and \<^verbatim>\<open>once\<close> return unsubscribes the listener.

  \<open>notify\<close> is all that the plugin has subscribed on the region \<open>x\<close>, called for one
  event: the listeners of \<^verbatim>\<open>saveRegion\<close>, then, for \<^verbatim>\<open>remove\<close>, the
  \<^verbatim>\<open>once('remove', unsubscribe)\<close> of \<^verbatim>\<open>virtualAppend\<close>, which takes
  \<^verbatim>\<open>renderIfVisible\<close> off the \<^verbatim>\<open>scroll\<close> event.
\<close>

definition notify :: "plugin \<Rightarrow> ref \<Rightarrow> region_event \<Rightarrow> plugin" where
  "notify s x ev =
     (let s1 = (if x \<in> set (subscribed s) then on_region_event s x ev else s)
      in if ev = Remove \<and> x \<in> set (remove_once s1)
         then s1\<lparr>scroll_listeners := removeAll x (scroll_listeners s1),
                 remove_once := removeAll x (remove_once s1)\<rparr>
         else s1)"

text \<open>
  A method of the region \<open>x\<close> has taken it from \<open>old\<close> to \<open>new\<close>: the object is stored and
  the events it has emitted on the way reach the listeners. In the source the listeners
  run at the \<^verbatim>\<open>emit\<close>, inside the method; they read of the region only its
  \<^verbatim>\<open>start\<close>, which no method changes after it has emitted.
\<close>

definition deliver :: "plugin \<Rightarrow> ref \<Rightarrow> region \<Rightarrow> region \<Rightarrow> plugin" where
  "deliver s x old new =
     foldl (\<lambda>s' ev. notify s' x ev) (s\<lparr>heap := (heap s)(x \<mapsto> new)\<rparr>)
       (drop (length (events old)) (events new))"

subsection \<open>Calls on a region of the plugin\<close>

definition region_play :: "plugin \<Rightarrow> ref \<Rightarrow> plugin" where
  "region_play s x = (case heap s x of None \<Rightarrow> s | Some r \<Rightarrow> deliver s x r (play r))"

text \<open>\<^verbatim>\<open>region.remove()\<close>: the event and its listeners, the draggables, then
  \<^verbatim>\<open>this.element.remove()\<close> on the document.\<close>

definition region_remove :: "plugin \<Rightarrow> ref \<Rightarrow> plugin outcome" where
  "region_remove s x =
     (case heap s x of
        None \<Rightarrow> Ok s
      | Some r \<Rightarrow>
          (case remove r of
             Ok r' \<Rightarrow> Ok (remove_element (deliver s x r r') x)
           | Throw e r' \<Rightarrow> Throw e (deliver s x r r')))"

definition region_setOptions :: "plugin \<Rightarrow> ref \<Rightarrow> options \<Rightarrow> plugin outcome" where
  "region_setOptions s x opts =
     (case heap s x of
        None \<Rightarrow> Ok s
      | Some r \<Rightarrow>
          (case setOptions r opts of
             Ok r' \<Rightarrow> Ok (deliver s x r r')
           | Throw e r' \<Rightarrow> Throw e (deliver s x r r')))"

text \<open>What \<^verbatim>\<open>_onUpdate\<close> reads from the document for the region \<open>x\<close>: the regions
  container is the only parent an element gets.\<close>

definition parent_width :: "plugin \<Rightarrow> ref \<Rightarrow> real option" where
  "parent_width s x =
     (if x \<in> set (children s)
      then Some (case wavesurfer s of Some h \<Rightarrow> container_width h | None \<Rightarrow> 0)
      else None)"

text \<open>
  Modelled from the spec: \<^verbatim>\<open>draggable.js\<close> is not among the sources. The drag
  primitive turns the pointer events on an element into calls of its move callback with
  the horizontal delta and of its end callback, until it is unsubscribed. A pointer
  or the mouse reaches an element only while the element is in the document.
\<close>

definition pointer_move :: "plugin \<Rightarrow> ref \<Rightarrow> real \<Rightarrow> plugin" where
  "pointer_move s x dx =
     (case heap s x of
        None \<Rightarrow> s
      | Some r \<Rightarrow>
          if (DragSub, True) \<in> set (subscriptions r) \<and> x \<in> set (children s)
          then deliver s x r (state_of (onMove r (parent_width s x) dx))
          else s)"

text \<open>A mouse event on the element of the region \<open>x\<close>.\<close>

definition mouse_event :: "plugin \<Rightarrow> ref \<Rightarrow> mouse \<Rightarrow> plugin" where
  "mouse_event s x m =
     (case heap s x of
        None \<Rightarrow> s
      | Some r \<Rightarrow> if x \<in> set (children s) then deliver s x r (onMouse m r) else s)"

definition has_handles :: "region \<Rightarrow> bool" where
  "has_handles r = (case element r of Some e \<Rightarrow> handles e | None \<Rightarrow> False)"

definition pointer_resize :: "plugin \<Rightarrow> ref \<Rightarrow> real \<Rightarrow> side \<Rightarrow> plugin" where
  "pointer_resize s x dx sd =
     (case heap s x of
        None \<Rightarrow> s
      | Some r \<Rightarrow>
          if ((if sd = Start then ResizeStartSub else ResizeEndSub), True) \<in> set (subscriptions r) \<and>
             has_handles r \<and> x \<in> set (children s)
          then deliver s x r (state_of (onResize r (parent_width s x) dx sd))
          else s)"

subsection \<open>Persistence\<close>

text \<open>\<^verbatim>\<open>saveRegion\<close>. \<^verbatim>\<open>avoidOverlapping\<close> returns at once for a region without
  content.\<close>

definition saveRegion :: "plugin \<Rightarrow> ref \<Rightarrow> plugin" where
  "saveRegion s x =
     (let has_element = (case heap s x of Some r \<Rightarrow> element r \<noteq> None | None \<Rightarrow> False);
          s1 = virtualAppend s x has_element;
          s2 = array_write s1 (regions s1) (array_of s1 (regions s1) @ [x]);
          s3 = s2\<lparr>subscribed := subscribed s2 @ [x]\<rparr>
      in emit_plugin (RegionCreated x) s3)"

text \<open>\<^verbatim>\<open>addRegion\<close> returns the region. \<^verbatim>\<open>!duration\<close> holds for the duration 0.\<close>

definition addRegion :: "plugin \<Rightarrow> params \<Rightarrow> error + (ref \<times> plugin)" where
  "addRegion s opts =
     (case wavesurfer s of
        None \<Rightarrow> Inl NotInitialized
      | Some h \<Rightarrow>
          (let duration = getDuration h;
               x = next_ref s;
               s1 = s\<lparr>heap := (heap s)(x \<mapsto> SingleRegion opts duration), next_ref := Suc x\<rparr>
           in if duration = 0
              then Inr (x, s1\<lparr>ready_once := ready_once s1 @ [x]\<rparr>)
              else Inr (x, saveRegion s1 x)))"

text \<open>The listener that \<^verbatim>\<open>addRegion\<close> subscribes with \<^verbatim>\<open>once('ready', ...)\<close>.
  \<^verbatim>\<open>_setTotalDuration\<close> throws on a region that has been removed meanwhile.\<close>

definition ready_listener :: "real \<Rightarrow> plugin \<Rightarrow> ref \<Rightarrow> plugin outcome" where
  "ready_listener duration s x =
     (case heap s x of
        None \<Rightarrow> Ok s
      | Some r \<Rightarrow>
          (case setTotalDuration r duration of
             Ok r' \<Rightarrow> Ok (saveRegion (s\<lparr>heap := (heap s)(x \<mapsto> r')\<rparr>) x)
           | Throw e r' \<Rightarrow> Throw e (s\<lparr>heap := (heap s)(x \<mapsto> r')\<rparr>)))"

text \<open>
  The host emits \<^verbatim>\<open>ready\<close> with its duration: the waiting listeners run in their
  order. A listener that has returned is unsubscribed (\<^verbatim>\<open>once\<close>). A listener that
  throws ends the emission: it has not returned, so it stays subscribed, as do the
  listeners after it.
\<close>

fun run_ready :: "real \<Rightarrow> ref list \<Rightarrow> plugin \<Rightarrow> plugin outcome" where
  "run_ready duration [] s = Ok s"
| "run_ready duration (x # rest) s =
     (case ready_listener duration (s\<lparr>ready_once := rest\<rparr>) x of
        Ok s' \<Rightarrow> run_ready duration rest s'
      | Throw e s' \<Rightarrow> Throw e (s'\<lparr>ready_once := x # rest\<rparr>))"

definition ready :: "plugin \<Rightarrow> real \<Rightarrow> plugin outcome" where
  "ready s duration =
     run_ready duration (ready_once s)
       (s\<lparr>wavesurfer := map_option (\<lambda>h. h\<lparr>getDuration := duration\<rparr>) (wavesurfer s)\<rparr>)"

text \<open>\<^verbatim>\<open>clearRegions\<close>: the loop runs over a copy of the array.\<close>

fun remove_each :: "ref list \<Rightarrow> plugin \<Rightarrow> plugin outcome" where
  "remove_each [] s = Ok s"
| "remove_each (x # rest) s =
     (case region_remove s x of
        Ok s' \<Rightarrow> remove_each rest s'
      | Throw e s' \<Rightarrow> Throw e s')"

definition clearRegions :: "plugin \<Rightarrow> plugin outcome" where
  "clearRegions s =
     (let (c, s1) = new_array (array_of s (regions s)) s
      in case remove_each (array_of s1 c) s1 of
           Ok s2 \<Rightarrow> (let (a, s3) = new_array [] s2 in Ok (s3\<lparr>regions := a\<rparr>))
         | Throw e s2 \<Rightarrow> Throw e s2)"

section \<open>The properties, as predicates\<close>

subsection \<open>Geometry of a region\<close>

text \<open>Both bounds within \<open>[0, totalDuration]\<close>.\<close>

definition in_range :: "region \<Rightarrow> bool" where
  "in_range r =
     (0 \<le> start r \<and> start r \<le> totalDuration r \<and> 0 \<le> end' r \<and> end' r \<le> totalDuration r)"

text \<open>The geometry invariant of the specification:
  \<open>0 \<le> start \<le> end \<le> totalDuration\<close> and \<open>minLength \<le> end - start \<le> maxLength\<close>, the
  difference being the one the source computes.\<close>

definition geometry_inv :: "region \<Rightarrow> bool" where
  "geometry_inv r =
     (0 \<le> start r \<and> start r \<le> end' r \<and> end' r \<le> totalDuration r \<and>
      js_le (Num (minLength r)) (js_sub (Num (end' r)) (Num (start r))) \<and>
      js_le (js_sub (Num (end' r)) (Num (start r))) (num_of_max (maxLength r)))"

text \<open>The calls that change the geometry of a region during its life; a fault leaves the
  region as it was when thrown.\<close>

datatype call =
  SetOptions options
  | OnUpdate "real option" real "side option"
  | OnMove "real option" real
  | OnResize "real option" real side

fun call_region :: "region \<Rightarrow> call \<Rightarrow> region" where
  "call_region r (SetOptions opts) = state_of (setOptions r opts)"
| "call_region r (OnUpdate parent dx sd) = state_of (onUpdate r parent dx sd)"
| "call_region r (OnMove parent dx) = state_of (onMove r parent dx)"
| "call_region r (OnResize parent dx sd) = state_of (onResize r parent dx sd)"

fun is_update :: "call \<Rightarrow> bool" where
  "is_update (SetOptions opts) = False"
| "is_update c = True"

text \<open>
  The candidate of \<^verbatim>\<open>_onUpdate(dx, side)\<close> under a parent of the given width violates a
  bound: \<open>newStart < 0\<close>, \<open>newEnd > totalDuration\<close>, \<open>newStart > newEnd\<close>, or the length
  is below \<^verbatim>\<open>minLength\<close> or above \<^verbatim>\<open>maxLength\<close>.
\<close>

definition violates_bounds :: "region \<Rightarrow> real \<Rightarrow> real \<Rightarrow> side option \<Rightarrow> bool" where
  "violates_bounds r width dx sd =
     (let delta = deltaSeconds r width dx;
          ns = newStart r delta sd;
          ne = newEnd r delta sd;
          len = js_sub ne ns
      in js_lt ns (Num 0) \<or> js_gt ne (Num (totalDuration r)) \<or> js_gt ns ne \<or>
         js_lt len (Num (minLength r)) \<or> js_gt len (num_of_max (maxLength r)))"

text \<open>
  The specification's condition for accepting the candidate: all the invariants hold of
  it, \<open>0 \<le> newStart \<le> newEnd \<le> totalDuration\<close> and
  \<open>minLength \<le> newEnd - newStart \<le> maxLength\<close>.
\<close>

definition accepted :: "region \<Rightarrow> real \<Rightarrow> real \<Rightarrow> side option \<Rightarrow> bool" where
  "accepted r width dx sd =
     (let delta = deltaSeconds r width dx;
          ns = newStart r delta sd;
          ne = newEnd r delta sd;
          len = js_sub ne ns
      in js_le (Num 0) ns \<and> js_le ns ne \<and> js_le ne (Num (totalDuration r)) \<and>
         js_le (Num (minLength r)) len \<and> js_le len (num_of_max (maxLength r)))"

text \<open>What \<^verbatim>\<open>renderPosition\<close> writes for a start, an end and a total duration.\<close>

definition left_percent :: "real \<Rightarrow> real \<Rightarrow> num" where
  "left_percent a total_d = js_mul (js_div (Num a) (Num total_d)) (Num 100)"

definition right_percent :: "real \<Rightarrow> real \<Rightarrow> num" where
  "right_percent b total_d =
     js_mul (js_div (js_sub (Num total_d) (Num b)) (Num total_d)) (Num 100)"

definition rendered :: "real \<Rightarrow> real \<Rightarrow> real \<Rightarrow> element \<Rightarrow> element" where
  "rendered a b total_d e =
     e\<lparr>style_left := Some (left_percent a total_d), style_right := Some (right_percent b total_d)\<rparr>"

subsection \<open>Concrete inputs\<close>

text \<open>\<^verbatim>\<open>{start: a, end: b}\<close>, every other parameter omitted.\<close>

definition interval :: "real \<Rightarrow> real \<Rightarrow> params" where
  "interval a b =
     \<lparr>p_start = a, p_end = Some b, p_drag = None, p_resize = None, p_color = None,
      p_minLength = None, p_maxLength = None\<rparr>"

text \<open>\<^verbatim>\<open>{start: a}\<close>: a marker.\<close>

definition marker :: "real \<Rightarrow> params" where
  "marker a =
     \<lparr>p_start = a, p_end = None, p_drag = None, p_resize = None, p_color = None,
      p_minLength = None, p_maxLength = None\<rparr>"

text \<open>\<^verbatim>\<open>{start: a}\<close> as the argument of \<^verbatim>\<open>setOptions\<close>.\<close>

definition only_start :: "real \<Rightarrow> options" where
  "only_start a =
     \<lparr>o_color = None, o_drag = None, o_start = Some a, o_end = None, o_resize = None\<rparr>"

subsection \<open>Playback tracking\<close>

text \<open>New arrays do not collide with the arrays the plugin holds: both references of the
  plugin are below the next free one.\<close>

definition fresh_arrays :: "plugin \<Rightarrow> bool" where
  "fresh_arrays s =
     (regions s < next_array s \<and>
      (case activeRegions s of Some a \<Rightarrow> a < next_array s | None \<Rightarrow> True))"

text \<open>
  The specification's account of a sequence of ticks, from the active set of the tick
  before: at each tick \<^verbatim>\<open>region-in\<close> for every region of the new active set that was
  not in the previous one, then \<^verbatim>\<open>region-out\<close> for every region of the previous
  active set that is not in the new one, and nothing else; the new active set is the
  previous one of the next tick.
\<close>

fun expected_transitions :: "plugin \<Rightarrow> ref list \<Rightarrow> real list \<Rightarrow> plugin_event list" where
  "expected_transitions s previous [] = []"
| "expected_transitions s previous (t # ts) =
     map RegionIn (filter (\<lambda>x. x \<notin> set previous) (playedRegions s t)) @
     map RegionOut (filter (\<lambda>x. x \<notin> set (playedRegions s t)) previous) @
     expected_transitions s (playedRegions s t) ts"

subsection \<open>Concrete plugins\<close>

text \<open>A host with a track of 10 seconds, drawn 1000 pixels wide, showing the first 500
  pixels.\<close>

definition host10 :: host where
  "host10 = \<lparr>getDuration = 10, getScroll = 0, getWidth = 500, container_clientWidth = 1000,
     container_width = 1000\<rparr>"

text \<open>The plugin after \<^verbatim>\<open>addRegion(p)\<close>.\<close>

definition added :: "plugin \<Rightarrow> params \<Rightarrow> plugin" where
  "added s p = (case addRegion s p of Inr (x, s') \<Rightarrow> s' | Inl e \<Rightarrow> s)"

text \<open>A plugin on that host with the one region \<open>[2, 4]\<close>, and one with a marker at 5. The
  region is the object 0 in both.\<close>

definition plugin_2_4 :: plugin where
  "plugin_2_4 = added (state_of (init create host10)) (interval 2 4)"

definition plugin_marker_5 :: plugin where
  "plugin_marker_5 = added (state_of (init create host10)) (marker 5)"

subsection \<open>Deferred creation\<close>

text \<open>A region object that has its element: \<^verbatim>\<open>remove\<close> has not been called on
  it.\<close>

definition alive :: "plugin \<Rightarrow> ref \<Rightarrow> bool" where
  "alive s x = (case heap s x of Some r \<Rightarrow> element r \<noteq> None | None \<Rightarrow> False)"

text \<open>No region that waits for \<^verbatim>\<open>ready\<close> has been removed meanwhile.\<close>

definition pending_alive :: "plugin \<Rightarrow> bool" where
  "pending_alive s = list_all (alive s) (ready_once s)"

text \<open>The collection and the waiting regions hold references that have been given
  out.\<close>

definition refs_below :: "plugin \<Rightarrow> bool" where
  "refs_below s =
     (list_all (\<lambda>y. y < next_ref s) (array_of s (regions s)) \<and>
      list_all (\<lambda>y. y < next_ref s) (ready_once s))"

text \<open>A host that does not know its duration yet, and a plugin on it.\<close>

definition host0 :: host where
  "host0 = \<lparr>getDuration = 0, getScroll = 0, getWidth = 500, container_clientWidth = 1000,
     container_width = 1000\<rparr>"

definition plugin0 :: plugin where
  "plugin0 = state_of (init create host0)"

text \<open>
  On the host without a duration, \<^verbatim>\<open>addRegion({start: 1, end: 2})\<close> returns the
  region 0, which is removed; then \<^verbatim>\<open>addRegion({start: 3, end: 4})\<close> returns the
  region 1; both listeners wait for \<^verbatim>\<open>ready\<close>.
\<close>

definition blocked :: plugin where
  "blocked = added (state_of (region_remove (added plugin0 (interval 1 2)) 0)) (interval 3 4)"

text \<open>The fault a call has ended with.\<close>

fun thrown :: "'a outcome \<Rightarrow> error option" where
  "thrown (Ok s) = None"
| "thrown (Throw e s) = Some e"

subsection \<open>Removal before the timer has run\<close>

text \<open>
  The region \<open>[2, 4]\<close> is removed in the turn of the event loop in which it was added,
  before the timer of \<^verbatim>\<open>virtualAppend\<close> has run; then the timer runs; then the mouse
  clicks the element.
\<close>

definition removed_early :: plugin where
  "removed_early = state_of (region_remove plugin_2_4 0)"

definition removed_then_timer :: plugin where
  "removed_then_timer = run_timers removed_early"

definition removed_then_clicked :: plugin where
  "removed_then_clicked = mouse_event removed_then_timer 0 MouseClick"

section \<open>Theorems\<close>

subsection \<open>The arithmetic of the doubles\<close>

lemma bexp_correct:
  "2 powi e \<le> x \<Longrightarrow> x < 2 powi (e + 1) \<Longrightarrow> \<bar>e\<bar> \<le> int n \<Longrightarrow> bexp n x = e"
proof (induction n arbitrary: x e)
  case 0
  then show ?case by simp
next
  case (Suc n)
  show ?case
  proof (cases "2 \<le> x")
    case True
    have "e \<ge> 1"
    proof (rule ccontr)
      assume "\<not> 1 \<le> e"
      then have "e + 1 \<le> 1" by simp
      then have "(2::real) powi (e + 1) \<le> 2 powi 1" by (intro power_int_increasing) simp_all
      with Suc.prems(2) True show False by simp
    qed
    have a: "2 powi (e - 1) \<le> x / 2"
      using Suc.prems(1) by (simp add: power_int_diff)
    have b: "x / 2 < 2 powi (e - 1 + 1)"
      using Suc.prems(2) by (simp add: power_int_add)
    have "bexp n (x / 2) = e - 1"
      using \<open>e \<ge> 1\<close> Suc.prems(3) by (intro Suc.IH a b) simp
    with True show ?thesis by simp
  next
    case False
    show ?thesis
    proof (cases "x < 1")
      case True
      have "e \<le> - 1"
      proof (rule ccontr)
        assume "\<not> e \<le> - 1"
        then have "0 \<le> e" by simp
        then have "(2::real) powi 0 \<le> 2 powi e" by (intro power_int_increasing) simp_all
        with Suc.prems(1) True show False by simp
      qed
      have a: "2 powi (e + 1) \<le> x * 2"
        using Suc.prems(1) by (simp add: power_int_add)
      have b: "x * 2 < 2 powi (e + 1 + 1)"
        using Suc.prems(2) by (simp add: power_int_add)
      have "bexp n (x * 2) = e + 1"
        using \<open>e \<le> - 1\<close> Suc.prems(3) by (intro Suc.IH a b) simp
      with True False show ?thesis by simp
    next
      case between: False
      have "e \<le> 0"
      proof (rule ccontr)
        assume "\<not> e \<le> 0"
        then have "1 \<le> e" by simp
        then have "(2::real) powi 1 \<le> 2 powi e" by (intro power_int_increasing) simp_all
        with Suc.prems(1) False show False by simp
      qed
      moreover have "0 \<le> e"
      proof (rule ccontr)
        assume "\<not> 0 \<le> e"
        then have "e + 1 \<le> 0" by simp
        then have "(2::real) powi (e + 1) \<le> 2 powi 0" by (intro power_int_increasing) simp_all
        with Suc.prems(2) between show False by simp
      qed
      ultimately show ?thesis using False between by simp
    qed
  qed
qed

lemma round_even_error: "\<bar>real_of_int (round_even z) - z\<bar> \<le> 1 / 2"
proof -
  have "real_of_int \<lfloor>z\<rfloor> \<le> z" "z < real_of_int \<lfloor>z\<rfloor> + 1" by linarith+
  then show ?thesis by (auto simp: round_even_def Let_def)
qed

text \<open>In the normal range \<open>fl\<close> rounds to a multiple of \<open>2 powi (e - 52)\<close> and does not
  overflow below the exponent 1023.\<close>

lemma fl_normal:
  assumes "2 powi e \<le> \<bar>x\<bar>" and "\<bar>x\<bar> < 2 powi (e + 1)" and "- 1022 \<le> e" and "e \<le> 1022"
  shows "fl x = Num (2 powi (e - 52) * real_of_int (round_even (x / 2 powi (e - 52))))"
proof -
  define q :: real where "q = 2 powi (e - 52)"
  define m where "m = round_even (x / q)"
  have q: "0 < q" by (simp add: q_def power_int_def)
  have "(0::real) < 2 powi e" by (simp add: power_int_def)
  then have "0 < \<bar>x\<bar>" using assms(1) by (rule less_le_trans)
  then have x: "x \<noteq> 0" by simp
  have e: "bexp 1100 \<bar>x\<bar> = e"
    using assms(3,4) by (intro bexp_correct assms(1,2)) simp
  have "\<bar>real_of_int m - x / q\<bar> \<le> 1 / 2" unfolding m_def by (rule round_even_error)
  then have "\<bar>q * real_of_int m - x\<bar> \<le> q / 2"
    using q by (simp add: abs_le_iff field_simps)
  then have "\<bar>q * real_of_int m\<bar> \<le> \<bar>x\<bar> + q / 2" by linarith
  also have "\<dots> < 2 powi (e + 1) + q / 2" using assms(2) by simp
  also have "q / 2 \<le> 2 powi (e + 1)"
  proof -
    have "q \<le> 2 powi (e + 1)" unfolding q_def by (intro power_int_increasing) simp_all
    with q show ?thesis by linarith
  qed
  also have "(2::real) powi (e + 1) + 2 powi (e + 1) = 2 powi (e + 2)"
    by (simp add: power_int_add)
  also have "\<dots> \<le> 2 powi 1024" using assms(4) by (intro power_int_increasing) simp_all
  finally have "\<bar>q * real_of_int m\<bar> < 2 powi 1024" by simp
  then show ?thesis
    using x e assms(3) by (simp add: fl_def Let_def max_def abs_less_iff q_def m_def)
qed

lemma round_even_of_int: "round_even (real_of_int m) = m"
  by (simp add: round_even_def)

text \<open>An integer below \<open>2 ^ 53\<close> in magnitude is a double.\<close>

lemma fl_int:
  fixes n :: int and k :: nat
  assumes "2 ^ k \<le> \<bar>n\<bar>" and "\<bar>n\<bar> < 2 ^ Suc k" and "k \<le> 52"
  shows "fl (real_of_int n) = Num (real_of_int n)"
proof -
  have a: "2 powi int k \<le> \<bar>real_of_int n\<bar>"
  proof -
    have "real_of_int (2 ^ k) \<le> real_of_int \<bar>n\<bar>" using assms(1) by (rule of_int_le_iff [THEN iffD2])
    then show ?thesis by simp
  qed
  have b: "\<bar>real_of_int n\<bar> < 2 powi (int k + 1)"
  proof -
    have "real_of_int \<bar>n\<bar> < real_of_int (2 ^ Suc k)" using assms(2) by (rule of_int_less_iff [THEN iffD2])
    then show ?thesis by (simp add: power_int_add)
  qed
  have q: "(2::real) powi (int k - 52) = 1 / 2 ^ (52 - k)"
    using assms(3) by (simp add: power_int_def nat_diff_distrib' power_one_over)
  have "real_of_int n / 2 powi (int k - 52) = real_of_int (n * 2 ^ (52 - k))"
    by (simp add: q)
  then have r: "round_even (real_of_int n / 2 powi (int k - 52)) = n * 2 ^ (52 - k)"
    by (simp only: round_even_of_int)
  show ?thesis
    using fl_normal [OF a b] assms(3) by (simp add: r) (simp add: q)
qed

lemma fl_2: "fl 2 = Num 2" using fl_int [of 1 2] by simp
lemma fl_3: "fl 3 = Num 3" using fl_int [of 1 3] by simp
lemma fl_5: "fl 5 = Num 5" using fl_int [of 2 5] by simp

text \<open>The doubles that the examples below meet.\<close>

lemma fl_0: "fl 0 = Num 0" by (simp add: fl_def)
lemma fl_1: "fl 1 = Num 1" using fl_int [of 0 1] by simp
lemma fl_7: "fl 7 = Num 7" using fl_int [of 2 7] by simp
lemma fl_9: "fl 9 = Num 9" using fl_int [of 3 9] by simp
lemma fl_10: "fl 10 = Num 10" using fl_int [of 3 10] by simp
lemma fl_11: "fl 11 = Num 11" using fl_int [of 3 11] by simp
lemma fl_100: "fl 100 = Num 100" using fl_int [of 6 100] by simp

text \<open>\<^verbatim>\<open>(10 / 100) * 10\<close> is 1 and \<^verbatim>\<open>(70 / 100) * 10\<close> is 7.\<close>

lemma fl_1_10: "fl (1 / 10) = Num (3602879701896397 / 36028797018963968)"
  using fl_normal [of "- 4" "1 / 10"] by (simp add: round_even_def)

lemma fl_7_10: "fl (7 / 10) = Num (3152519739159347 / 4503599627370496)"
  using fl_normal [of "- 1" "7 / 10"] by (simp add: round_even_def)

lemma deltaSeconds_10_100_10: "totalDuration r = 10 \<Longrightarrow> deltaSeconds r 100 10 = Num 1"
  using fl_normal [of 0 "3602879701896397 / 36028797018963968 * 10"]
  by (simp add: deltaSeconds_def fl_1_10 round_even_def)

lemma deltaSeconds_70_100_10: "totalDuration r = 10 \<Longrightarrow> deltaSeconds r 100 70 = Num 7"
  using fl_normal [of 2 "3152519739159347 / 4503599627370496 * 10"]
  by (simp add: deltaSeconds_def fl_7_10 round_even_def)

subsection \<open>The comparisons\<close>

lemma js_lt_not_le: "js_lt a b \<Longrightarrow> \<not> js_le b a"
  by (cases a; cases b) simp_all

lemma js_le_finite: "js_le (Num 0) a \<Longrightarrow> js_le a (Num t) \<Longrightarrow> \<exists>x. a = Num x"
  by (cases a) simp_all

subsection \<open>What the constructor and the region's methods keep\<close>

lemma totalDuration_SingleRegion: "totalDuration (SingleRegion p T) = T"
  by (simp add: SingleRegion_def Let_def initElement_def addResizeHandles_def setPart_def
      renderPosition_def split: prod.splits)

lemma start_SingleRegion: "start (SingleRegion p T) = max 0 (min T (p_start p))"
  by (simp add: SingleRegion_def Let_def initElement_def addResizeHandles_def setPart_def
      renderPosition_def clampPosition_def split: prod.splits)

lemma end_SingleRegion:
  "end' (SingleRegion p T) = max 0 (min T (case p_end p of Some x \<Rightarrow> x | None \<Rightarrow> p_start p))"
  by (simp add: SingleRegion_def Let_def initElement_def addResizeHandles_def setPart_def
      renderPosition_def clampPosition_def split: prod.splits)

lemma in_range_SingleRegion: "0 \<le> T \<Longrightarrow> in_range (SingleRegion p T)"
  by (simp add: in_range_def totalDuration_SingleRegion start_SingleRegion end_SingleRegion)

lemma clampPosition_range:
  "0 \<le> totalDuration r \<Longrightarrow> 0 \<le> clampPosition r x \<and> clampPosition r x \<le> totalDuration r"
  by (simp add: clampPosition_def)

lemma clampPosition_start_upd: "clampPosition (r\<lparr>start := a\<rparr>) x = clampPosition r x"
  by (simp add: clampPosition_def)

text \<open>\<^verbatim>\<open>renderPosition\<close> writes the two percentages and nothing else.\<close>

lemma renderPosition_eq:
  "renderPosition r =
     (case element r of
        None \<Rightarrow> Throw TypeError r
      | Some e \<Rightarrow> Ok (r\<lparr>element := Some (rendered (start r) (end' r) (totalDuration r) e)\<rparr>))"
  by (simp add: renderPosition_def rendered_def left_percent_def right_percent_def Let_def
      split: option.splits)

lemma render_setPart_geom:
  "start (state_of (and_then (renderPosition r) setPart)) = start r"
  "end' (state_of (and_then (renderPosition r) setPart)) = end' r"
  "totalDuration (state_of (and_then (renderPosition r) setPart)) = totalDuration r"
  by (simp_all add: renderPosition_eq setPart_def split: option.splits)

lemma setOptions_position_shape:
  "setOptions_position opts r = Ok r \<or>
   (\<exists>a b. setOptions_position opts r =
      and_then (renderPosition (r\<lparr>start := clampPosition r a, end' := clampPosition r b\<rparr>)) setPart)"
proof (cases "o_start opts \<noteq> None \<or> o_end opts \<noteq> None")
  case True
  then have "setOptions_position opts r =
      and_then (renderPosition
        (r\<lparr>start := clampPosition r (case o_start opts of Some x \<Rightarrow> x | None \<Rightarrow> start r),
           end' := clampPosition r
             (case o_end opts of
                Some x \<Rightarrow> x
              | None \<Rightarrow>
                  (if isMarker r
                   then clampPosition r (case o_start opts of Some x \<Rightarrow> x | None \<Rightarrow> start r)
                   else end' r))\<rparr>)) setPart"
    unfolding setOptions_position_def Let_def clampPosition_start_upd
    by (simp cong: option.case_cong)
  then show ?thesis by blast
next
  case False
  then show ?thesis by (simp add: setOptions_position_def)
qed

lemma in_range_and_then:
  "in_range (state_of x) \<Longrightarrow> (\<And>s. in_range s \<Longrightarrow> in_range (state_of (f s))) \<Longrightarrow>
   in_range (state_of (and_then x f))"
  by (cases x) simp_all

lemma in_range_color: "in_range r \<Longrightarrow> in_range (state_of (setOptions_color opts r))"
  by (auto simp: setOptions_color_def in_range_def Let_def split: option.splits)

lemma in_range_drag: "in_range r \<Longrightarrow> in_range (state_of (setOptions_drag opts r))"
  by (auto simp: setOptions_drag_def in_range_def Let_def split: option.splits)

lemma in_range_position: "in_range r \<Longrightarrow> in_range (state_of (setOptions_position opts r))"
  using setOptions_position_shape [of opts r] clampPosition_range [of r]
  by (auto simp: in_range_def render_setPart_geom)

lemma in_range_resize: "in_range r \<Longrightarrow> in_range (state_of (setOptions_resize opts r))"
  by (auto simp: setOptions_resize_def in_range_def Let_def addResizeHandles_def
      split: option.splits)

lemma in_range_setOptions: "in_range r \<Longrightarrow> in_range (state_of (setOptions r opts))"
  unfolding setOptions_def
  by (intro in_range_and_then in_range_color in_range_drag in_range_position in_range_resize)

text \<open>A candidate that passes the guard consists of two finite numbers.\<close>

lemma guard_finite: "guard r ns ne \<Longrightarrow> \<exists>a b. ns = Num a \<and> ne = Num b"
proof -
  assume g: "guard r ns ne"
  then have "js_le (Num 0) ns" "js_le ns ne" "js_le ne (Num (totalDuration r))"
    by (simp_all add: guard_def Let_def js_ge_def)
  then show ?thesis by (cases ns; cases ne) simp_all
qed

lemma guard_Num:
  "guard r (Num a) (Num b) =
     (0 \<le> a \<and> b \<le> totalDuration r \<and> a \<le> b \<and>
      js_le (Num (minLength r)) (js_sub (Num b) (Num a)) \<and>
      js_le (js_sub (Num b) (Num a)) (num_of_max (maxLength r)))"
  by (simp add: guard_def Let_def js_ge_def)

text \<open>What \<^verbatim>\<open>_onUpdate\<close> does under a parent, by the guard.\<close>

lemma onUpdate_rejected:
  "\<not> guard r (newStart r (deltaSeconds r w dx) sd) (newEnd r (deltaSeconds r w dx) sd) \<Longrightarrow>
   onUpdate r (Some w) dx sd = (case element r of None \<Rightarrow> Throw TypeError r | Some e \<Rightarrow> Ok r)"
  by (simp add: onUpdate_def Let_def split: option.splits)

lemma onUpdate_accepted:
  assumes "guard r (newStart r (deltaSeconds r w dx) sd) (newEnd r (deltaSeconds r w dx) sd)"
    and "element r = Some e"
  shows "\<exists>a b. newStart r (deltaSeconds r w dx) sd = Num a \<and>
     newEnd r (deltaSeconds r w dx) sd = Num b \<and>
     onUpdate r (Some w) dx sd =
       Ok (r\<lparr>start := a, end' := b, element := Some (rendered a b (totalDuration r) e),
             events := events r @ [Update sd]\<rparr>)"
proof -
  from guard_finite [OF assms(1)] obtain a b
    where ab: "newStart r (deltaSeconds r w dx) sd = Num a"
      "newEnd r (deltaSeconds r w dx) sd = Num b" by blast
  have "onUpdate r (Some w) dx sd =
       Ok (r\<lparr>start := a, end' := b, element := Some (rendered a b (totalDuration r) e),
             events := events r @ [Update sd]\<rparr>)"
    using assms ab by (simp add: onUpdate_def Let_def renderPosition_eq emit_def)
  with ab show ?thesis by blast
qed

text \<open>The three ways \<^verbatim>\<open>_onUpdate\<close> ends: nothing done, a fault before anything is
  done, or the candidate stored, rendered and announced.\<close>

lemma onUpdate_cases:
  "onUpdate r parent dx sd = Ok r \<or> onUpdate r parent dx sd = Throw TypeError r \<or>
   (\<exists>e a b. element r = Some e \<and> guard r (Num a) (Num b) \<and>
      onUpdate r parent dx sd =
        Ok (r\<lparr>start := a, end' := b, element := Some (rendered a b (totalDuration r) e),
              events := events r @ [Update sd]\<rparr>))"
proof (cases parent)
  case None
  then show ?thesis by (simp add: onUpdate_def split: option.splits)
next
  case (Some w)
  show ?thesis
  proof (cases "guard r (newStart r (deltaSeconds r w dx) sd) (newEnd r (deltaSeconds r w dx) sd)")
    case False
    from onUpdate_rejected [OF False] Some show ?thesis by (simp split: option.splits)
  next
    case True
    show ?thesis
    proof (cases "element r")
      case None
      then show ?thesis by (simp add: onUpdate_def)
    next
      case (Some e)
      from onUpdate_accepted [OF True Some] obtain a b
        where ab: "newStart r (deltaSeconds r w dx) sd = Num a"
          "newEnd r (deltaSeconds r w dx) sd = Num b"
          "onUpdate r (Some w) dx sd =
             Ok (r\<lparr>start := a, end' := b, element := Some (rendered a b (totalDuration r) e),
                   events := events r @ [Update sd]\<rparr>)"
        by blast
      from True ab(1,2) have "guard r (Num a) (Num b)" by simp
      with ab(3) Some \<open>parent = Some w\<close> show ?thesis by blast
    qed
  qed
qed

lemma geometry_inv_onUpdate:
  "geometry_inv r \<Longrightarrow> geometry_inv (state_of (onUpdate r parent dx sd))"
  using onUpdate_cases [of r parent dx sd]
  by (auto simp: geometry_inv_def guard_Num)

lemma in_range_onUpdate: "in_range r \<Longrightarrow> in_range (state_of (onUpdate r parent dx sd))"
  using onUpdate_cases [of r parent dx sd]
  by (auto simp: in_range_def guard_Num)

lemma accepted_geometry_inv:
  "events (state_of (onUpdate r parent dx sd)) \<noteq> events r \<Longrightarrow>
   geometry_inv (state_of (onUpdate r parent dx sd))"
  using onUpdate_cases [of r parent dx sd]
  by (auto simp: geometry_inv_def guard_Num)

lemma in_range_call: "in_range r \<Longrightarrow> in_range (call_region r c)"
  by (cases c) (simp_all add: in_range_setOptions in_range_onUpdate onMove_def onResize_def)

lemma in_range_calls: "in_range r \<Longrightarrow> in_range (foldl call_region r cs)"
  by (induction cs arbitrary: r) (simp_all add: in_range_call)

lemma geometry_inv_call: "geometry_inv r \<Longrightarrow> is_update c \<Longrightarrow> geometry_inv (call_region r c)"
  by (cases c) (simp_all add: geometry_inv_onUpdate onMove_def onResize_def)

lemma geometry_inv_calls:
  "geometry_inv r \<Longrightarrow> \<forall>c\<in>set cs. is_update c \<Longrightarrow> geometry_inv (foldl call_region r cs)"
  by (induction cs arbitrary: r) (simp_all add: geometry_inv_call)

subsection \<open>The region \<open>[2, 4]\<close> of a track of 10 seconds\<close>

lemma SingleRegion_2_4:
  "SingleRegion (interval 2 4) 10 =
     \<lparr>totalDuration = 10, start = 2, end' = 4, minLength = 0, maxLength = Infinity,
      drag = True, resize = True, color = ''rgba(0, 0, 0, 0.1)'',
      element = Some \<lparr>style_left = Some (left_percent 2 10),
        style_right = Some (right_percent 4 10), style_cursor = Grab,
        backgroundColor = ''rgba(0, 0, 0, 0.1)'', part_marker = False, handles = True\<rparr>,
      subscriptions = [(ResizeStartSub, True), (ResizeEndSub, True), (DragSub, True)],
      events = []\<rparr>"
  by (simp add: SingleRegion_def interval_def clampPosition_def initElement_def isMarker_def
      addResizeHandles_def setPart_def renderPosition_eq rendered_def Let_def)

lemma geometry_inv_2_4: "geometry_inv (SingleRegion (interval 2 4) 10)"
  by (simp add: SingleRegion_2_4 geometry_inv_def js_sub_def fl_2)

lemma onUpdate_2_4_move:
  "onUpdate (SingleRegion (interval 2 4) 10) (Some 100) 10 None =
     Ok \<lparr>totalDuration = 10, start = 3, end' = 5, minLength = 0, maxLength = Infinity,
      drag = True, resize = True, color = ''rgba(0, 0, 0, 0.1)'',
      element = Some \<lparr>style_left = Some (left_percent 3 10),
        style_right = Some (right_percent 5 10), style_cursor = Grab,
        backgroundColor = ''rgba(0, 0, 0, 0.1)'', part_marker = False, handles = True\<rparr>,
      subscriptions = [(ResizeStartSub, True), (ResizeEndSub, True), (DragSub, True)],
      events = [Update None]\<rparr>"
  by (simp add: SingleRegion_2_4 onUpdate_def deltaSeconds_10_100_10 newStart_def newEnd_def
      guard_def js_ge_def js_sub_def fl_2 fl_3 fl_5 renderPosition_eq rendered_def emit_def
      Let_def)

subsection \<open>C1: the geometry invariant\<close>

text \<open>
  C1, as stated, fails. The constructor clamps \<^verbatim>\<open>start\<close> and \<^verbatim>\<open>end\<close> one by one
  and compares neither with the other nor their distance with \<^verbatim>\<open>minLength\<close> and
  \<^verbatim>\<open>maxLength\<close>: \<^verbatim>\<open>new SingleRegion({start: 5, end: 2}, 10)\<close> has \<open>start = 5\<close>
  and \<open>end = 2\<close>, so the invariant does not hold after construction.
\<close>

theorem geometry_invariant_counterexample:
  "\<not> geometry_inv (SingleRegion (interval 5 2) 10)"
  by (simp add: geometry_inv_def start_SingleRegion end_SingleRegion interval_def)

text \<open>
  C1, amended. For a region constructed with a total duration that is not negative, after
  the constructor and after any sequence of \<^verbatim>\<open>setOptions\<close> calls and drag or resize
  updates, \<^verbatim>\<open>start\<close> and \<^verbatim>\<open>end\<close> both lie in \<open>[0, totalDuration]\<close>. Every update
  that is accepted (it emits \<^verbatim>\<open>update\<close>) leaves the region with the whole invariant
  \<open>0 \<le> start \<le> end \<le> totalDuration\<close> and \<open>minLength \<le> end - start \<le> maxLength\<close>, and
  a region that has the whole invariant keeps it through any sequence of drag or resize
  updates.
\<close>

theorem geometry_by_design:
  "(0 \<le> T \<longrightarrow> in_range (foldl call_region (SingleRegion p T) cs)) \<and>
   (events (state_of (onUpdate r parent dx sd)) \<noteq> events r \<longrightarrow>
      geometry_inv (state_of (onUpdate r parent dx sd))) \<and>
   (geometry_inv r \<longrightarrow> list_all is_update us \<longrightarrow> geometry_inv (foldl call_region r us))"
  by (simp add: in_range_calls in_range_SingleRegion accepted_geometry_inv geometry_inv_calls
      list_all_iff)

text \<open>Witness for C1 amended: the region of the counterexample through a \<^verbatim>\<open>setOptions\<close>
  and a move, and the region \<open>[2, 4]\<close> of a 10 second track moved by 10 of 100 pixels and
  then resized at its end.\<close>

theorem geometry_by_design_witness:
  "(0::real) \<le> 10 \<and>
   in_range (foldl call_region (SingleRegion (interval 5 2) 10)
     [SetOptions (only_start 7), OnUpdate (Some 100) 10 None]) \<and>
   events (state_of (onUpdate (SingleRegion (interval 2 4) 10) (Some 100) 10 None)) \<noteq>
     events (SingleRegion (interval 2 4) 10) \<and>
   geometry_inv (state_of (onUpdate (SingleRegion (interval 2 4) 10) (Some 100) 10 None)) \<and>
   geometry_inv (SingleRegion (interval 2 4) 10) \<and>
   list_all is_update [OnUpdate (Some 100) 10 None, OnResize (Some 100) 5 End] \<and>
   geometry_inv (foldl call_region (SingleRegion (interval 2 4) 10)
     [OnUpdate (Some 100) 10 None, OnResize (Some 100) 5 End])"
  using geometry_by_design [of 10 "interval 5 2"
      "[SetOptions (only_start 7), OnUpdate (Some 100) 10 None]"
      "SingleRegion (interval 2 4) 10" "Some 100" 10 None
      "[OnUpdate (Some 100) 10 None, OnResize (Some 100) 5 End]"]
  by (simp add: onUpdate_2_4_move geometry_inv_2_4) (simp add: SingleRegion_2_4)

text \<open>
  The length of the invariant is the double \<^verbatim>\<open>end - start\<close>, as in the guard, and not
  the difference of the two reals: for \<^verbatim>\<open>{start: 0.2, end: 1.2, minLength: 1}\<close> the
  double \<^verbatim>\<open>1.2 - 0.2\<close> is 1, and the two doubles are less than 1 apart.
\<close>

lemma lit_1_5: "lit (1 / 5) = 3602879701896397 / 18014398509481984"
  using fl_normal [of "- 3" "1 / 5"] by (simp add: lit_def round_even_def)

lemma lit_6_5: "lit (6 / 5) = 5404319552844595 / 4503599627370496"
  using fl_normal [of 0 "6 / 5"] by (simp add: lit_def round_even_def)

lemma length_is_rounded:
  "geometry_inv (SingleRegion ((interval (lit (2 / 10)) (lit (12 / 10)))\<lparr>p_minLength := Some 1\<rparr>) 10)"
  "end' (SingleRegion ((interval (lit (2 / 10)) (lit (12 / 10)))\<lparr>p_minLength := Some 1\<rparr>) 10) -
   start (SingleRegion ((interval (lit (2 / 10)) (lit (12 / 10)))\<lparr>p_minLength := Some 1\<rparr>) 10) < 1"
proof -
  have a: "fl (18014398509481983 / 18014398509481984) = Num 1"
    using fl_normal [of "- 1" "18014398509481983 / 18014398509481984"]
    by (simp add: round_even_def)
  show "geometry_inv
      (SingleRegion ((interval (lit (2 / 10)) (lit (12 / 10)))\<lparr>p_minLength := Some 1\<rparr>) 10)"
    by (simp add: geometry_inv_def SingleRegion_def interval_def clampPosition_def
        initElement_def isMarker_def addResizeHandles_def setPart_def renderPosition_eq Let_def
        lit_1_5 lit_6_5 js_sub_def a)
  show "end' (SingleRegion ((interval (lit (2 / 10)) (lit (12 / 10)))\<lparr>p_minLength := Some 1\<rparr>) 10) -
   start (SingleRegion ((interval (lit (2 / 10)) (lit (12 / 10)))\<lparr>p_minLength := Some 1\<rparr>) 10) < 1"
    by (simp add: start_SingleRegion end_SingleRegion interval_def lit_1_5 lit_6_5)
qed

subsection \<open>C2: a violating update is rejected as a whole\<close>

lemma violates_not_guard:
  "violates_bounds r width dx sd \<Longrightarrow>
   \<not> guard r (newStart r (deltaSeconds r width dx) sd) (newEnd r (deltaSeconds r width dx) sd)"
  by (auto simp: violates_bounds_def guard_def Let_def js_ge_def js_gt_def dest: js_lt_not_le)

text \<open>
  C2. An update whose candidate violates one of the bounds leaves the region exactly as it
  was: \<^verbatim>\<open>start\<close> and \<^verbatim>\<open>end\<close> keep their values, nothing is clamped, and the log of
  emitted events is the same, so no \<^verbatim>\<open>update\<close> is emitted; on a region that has its
  element the call returns normally. The candidate is the one the source computes, in
  doubles, and so are the comparisons. The same holds of the drag (\<^verbatim>\<open>onMove\<close>) and of
  the resize (\<^verbatim>\<open>onResize\<close>) that lead to the update.
\<close>

theorem update_rejected_atomically:
  "violates_bounds r width dx sd \<Longrightarrow>
   state_of (onUpdate r (Some width) dx sd) = r \<and>
   start (state_of (onUpdate r (Some width) dx sd)) = start r \<and>
   end' (state_of (onUpdate r (Some width) dx sd)) = end' r \<and>
   events (state_of (onUpdate r (Some width) dx sd)) = events r \<and>
   (element r \<noteq> None \<longrightarrow> onUpdate r (Some width) dx sd = Ok r) \<and>
   (sd = None \<longrightarrow> state_of (onMove r (Some width) dx) = r) \<and>
   (\<forall>s. sd = Some s \<longrightarrow> state_of (onResize r (Some width) dx s) = r)"
proof -
  assume v: "violates_bounds r width dx sd"
  have u: "onUpdate r (Some width) dx sd =
      (case element r of None \<Rightarrow> Throw TypeError r | Some e \<Rightarrow> Ok r)"
    using v by (intro onUpdate_rejected violates_not_guard)
  then have "state_of (onUpdate r (Some width) dx sd) = r" by (simp split: option.splits)
  with u show ?thesis by (auto simp: onMove_def onResize_def split: option.splits)
qed

text \<open>The region \<open>[7, 9]\<close> of a track of 100 seconds under a parent 100 pixels wide, dragged
  by -7 pixels: \<^verbatim>\<open>(-7 / 100) * 100\<close> is the double below -7, and the candidate start
  is \<open>- (1 / 2 ^ 50)\<close>.\<close>

lemma fl_m7_100: "fl (- (7 / 100)) = Num (- (1261007895663739 / 18014398509481984))"
  using fl_normal [of "- 4" "- (7 / 100)"] by (simp add: round_even_def)

lemma deltaSeconds_m7_100_100:
  "totalDuration r = 100 \<Longrightarrow>
   deltaSeconds r 100 (- 7) = Num (- (7881299347898369 / 1125899906842624))"
  using fl_normal [of 2 "- (1261007895663739 / 18014398509481984) * 100"]
  by (simp add: deltaSeconds_def fl_m7_100 round_even_def)

lemma newStart_7_9:
  "totalDuration r = 100 \<Longrightarrow> start r = 7 \<Longrightarrow>
   newStart r (deltaSeconds r 100 (- 7)) None = Num (- (1 / 1125899906842624))"
  using fl_normal [of "- 50" "- (1 / 1125899906842624)"]
  by (simp add: newStart_def deltaSeconds_m7_100_100 round_even_def)

lemma violates_7_9: "violates_bounds (SingleRegion (interval 7 9) 100) 100 (- 7) None"
proof -
  have "newStart (SingleRegion (interval 7 9) 100)
      (deltaSeconds (SingleRegion (interval 7 9) 100) 100 (- 7)) None =
      Num (- (1 / 1125899906842624))"
    by (rule newStart_7_9)
      (simp_all add: totalDuration_SingleRegion start_SingleRegion interval_def)
  then show ?thesis by (simp add: violates_bounds_def Let_def)
qed

lemma violates_2_4: "violates_bounds (SingleRegion (interval 2 4) 10) 100 70 None"
  by (simp add: violates_bounds_def Let_def newStart_def newEnd_def deltaSeconds_70_100_10
      totalDuration_SingleRegion end_SingleRegion interval_def fl_11 js_gt_def)

text \<open>Witness for C2: the region \<open>[2, 4]\<close> of a 10 second track dragged by 70 of 100
  pixels, where the candidate end 11 is beyond the total duration; and the region
  \<open>[7, 9]\<close> above, where only the rounding takes the candidate start below 0.\<close>

theorem update_rejected_atomically_witness:
  "violates_bounds (SingleRegion (interval 2 4) 10) 100 70 None \<and>
   state_of (onUpdate (SingleRegion (interval 2 4) 10) (Some 100) 70 None) =
     SingleRegion (interval 2 4) 10 \<and>
   element (SingleRegion (interval 2 4) 10) \<noteq> None \<and>
   onUpdate (SingleRegion (interval 2 4) 10) (Some 100) 70 None =
     Ok (SingleRegion (interval 2 4) 10) \<and>
   state_of (onMove (SingleRegion (interval 2 4) 10) (Some 100) 70) =
     SingleRegion (interval 2 4) 10 \<and>
   violates_bounds (SingleRegion (interval 7 9) 100) 100 (- 7) None \<and>
   start (state_of (onUpdate (SingleRegion (interval 7 9) 100) (Some 100) (- 7) None)) = 7 \<and>
   end' (state_of (onUpdate (SingleRegion (interval 7 9) 100) (Some 100) (- 7) None)) = 9 \<and>
   events (state_of (onUpdate (SingleRegion (interval 7 9) 100) (Some 100) (- 7) None)) = []"
proof -
  have e: "element (SingleRegion (interval 2 4) 10) \<noteq> None"
    by (simp add: SingleRegion_2_4)
  have g: "start (SingleRegion (interval 7 9) 100) = 7" "end' (SingleRegion (interval 7 9) 100) = 9"
    "events (SingleRegion (interval 7 9) 100) = []"
    by (simp_all add: start_SingleRegion end_SingleRegion interval_def SingleRegion_def Let_def
        initElement_def addResizeHandles_def setPart_def renderPosition_eq isMarker_def
        clampPosition_def)
  show ?thesis
    using update_rejected_atomically [OF violates_2_4] update_rejected_atomically [OF violates_7_9]
      violates_2_4 violates_7_9 e
    by (simp add: g)
qed

subsection \<open>C3: what an accepted update does\<close>

lemma accepted_guard:
  "accepted r width dx sd =
   guard r (newStart r (deltaSeconds r width dx) sd) (newEnd r (deltaSeconds r width dx) sd)"
  by (auto simp: accepted_def guard_def Let_def js_ge_def)

text \<open>
  C3. Under a parent of width \<open>w\<close> the time delta is \<^verbatim>\<open>(dx / w) * totalDuration\<close>, in
  doubles. When the candidate is accepted the call returns normally; with the side
  omitted \<^verbatim>\<open>start\<close> and \<^verbatim>\<open>end\<close> are the doubles \<^verbatim>\<open>start + deltaSeconds\<close> and
  \<^verbatim>\<open>end + deltaSeconds\<close>, with side \<^verbatim>\<open>'start'\<close> or \<^verbatim>\<open>'end'\<close> only that bound
  is; the element carries the percentages of the new position, and one \<^verbatim>\<open>update\<close>
  event carrying the side has been emitted.
\<close>

theorem update_accepted_effect:
  assumes "element r = Some e" and "accepted r width dx sd"
  shows "\<exists>a b.
     onUpdate r (Some width) dx sd =
       Ok (r\<lparr>start := a, end' := b, element := Some (rendered a b (totalDuration r) e),
             events := events r @ [Update sd]\<rparr>) \<and>
     (sd = None \<longrightarrow>
        Num a =
          js_add (Num (start r)) (js_mul (js_div (Num dx) (Num width)) (Num (totalDuration r))) \<and>
        Num b =
          js_add (Num (end' r)) (js_mul (js_div (Num dx) (Num width)) (Num (totalDuration r)))) \<and>
     (sd = Some Start \<longrightarrow>
        Num a =
          js_add (Num (start r)) (js_mul (js_div (Num dx) (Num width)) (Num (totalDuration r))) \<and>
        b = end' r) \<and>
     (sd = Some End \<longrightarrow>
        a = start r \<and>
        Num b =
          js_add (Num (end' r)) (js_mul (js_div (Num dx) (Num width)) (Num (totalDuration r))))"
proof -
  from assms(2) have g:
    "guard r (newStart r (deltaSeconds r width dx) sd) (newEnd r (deltaSeconds r width dx) sd)"
    by (simp add: accepted_guard)
  from onUpdate_accepted [OF g assms(1)] obtain a b
    where ab: "newStart r (deltaSeconds r width dx) sd = Num a"
      "newEnd r (deltaSeconds r width dx) sd = Num b"
      "onUpdate r (Some width) dx sd =
         Ok (r\<lparr>start := a, end' := b, element := Some (rendered a b (totalDuration r) e),
               events := events r @ [Update sd]\<rparr>)"
    by blast
  from ab(1,2) have
    "sd = None \<longrightarrow>
        Num a = js_add (Num (start r)) (deltaSeconds r width dx) \<and>
        Num b = js_add (Num (end' r)) (deltaSeconds r width dx)"
    "sd = Some Start \<longrightarrow>
        Num a = js_add (Num (start r)) (deltaSeconds r width dx) \<and> b = end' r"
    "sd = Some End \<longrightarrow>
        a = start r \<and> Num b = js_add (Num (end' r)) (deltaSeconds r width dx)"
    by (auto simp: newStart_def newEnd_def)
  with ab(3) show ?thesis unfolding deltaSeconds_def by blast
qed

text \<open>The literals \<^verbatim>\<open>0.3\<close> and \<^verbatim>\<open>1.3\<close>, and \<^verbatim>\<open>(-3 / 100) * 10\<close>, which is
  the double \<^verbatim>\<open>-0.3\<close>.\<close>

lemma lit_3_10: "lit (3 / 10) = 5404319552844595 / 18014398509481984"
  using fl_normal [of "- 2" "3 / 10"] by (simp add: lit_def round_even_def)

lemma lit_13_10: "lit (13 / 10) = 5854679515581645 / 4503599627370496"
  using fl_normal [of 0 "13 / 10"] by (simp add: lit_def round_even_def)

lemma fl_m3_100: "fl (- (3 / 100)) = Num (- (1080863910568919 / 36028797018963968))"
  using fl_normal [of "- 6" "- (3 / 100)"] by (simp add: round_even_def)

lemma deltaSeconds_m3_100_10:
  "totalDuration r = 10 \<Longrightarrow>
   deltaSeconds r 100 (- 3) = Num (- (5404319552844595 / 18014398509481984))"
  using fl_normal [of "- 2" "- (1080863910568919 / 36028797018963968) * 10"]
  by (simp add: deltaSeconds_def fl_m3_100 round_even_def)

lemma fl_1_up: "fl (18014398509481985 / 18014398509481984) = Num 1"
  using fl_normal [of 0 "18014398509481985 / 18014398509481984"] by (simp add: round_even_def)

text \<open>\<^verbatim>\<open>new SingleRegion({start: 0.3, end: 1.3}, 10)\<close>.\<close>

lemma region_03_13:
  "totalDuration (SingleRegion (interval (lit (3 / 10)) (lit (13 / 10))) 10) = 10"
  "start (SingleRegion (interval (lit (3 / 10)) (lit (13 / 10))) 10) =
     5404319552844595 / 18014398509481984"
  "end' (SingleRegion (interval (lit (3 / 10)) (lit (13 / 10))) 10) =
     5854679515581645 / 4503599627370496"
  "minLength (SingleRegion (interval (lit (3 / 10)) (lit (13 / 10))) 10) = 0"
  "maxLength (SingleRegion (interval (lit (3 / 10)) (lit (13 / 10))) 10) = Infinity"
  "events (SingleRegion (interval (lit (3 / 10)) (lit (13 / 10))) 10) = []"
  by (simp_all add: SingleRegion_def interval_def clampPosition_def initElement_def isMarker_def
      addResizeHandles_def setPart_def renderPosition_eq Let_def lit_3_10 lit_13_10)

lemma accepted_03_13:
  "accepted (SingleRegion (interval (lit (3 / 10)) (lit (13 / 10))) 10) 100 (- 3) None"
  by (simp add: accepted_def Let_def newStart_def newEnd_def deltaSeconds_m3_100_10 region_03_13
      fl_0 fl_1 fl_1_up js_sub_def)

lemma accepted_2_4:
  "accepted (SingleRegion (interval 2 4) 10) 100 10 sd"
  by (simp add: accepted_def Let_def newStart_def newEnd_def deltaSeconds_10_100_10
      SingleRegion_2_4 fl_1 fl_2 fl_3 fl_5 js_sub_def)

text \<open>Witness for C3: the region \<open>[2, 4]\<close> of a 10 second track under a parent 100 pixels
  wide, moved by 10 pixels, resized at its start by 10 pixels, and resized at its end by
  10 pixels: the delta is one second each time. And the region \<open>[0.3, 1.3]\<close> of that track
  moved by -3 pixels: the delta is the double \<^verbatim>\<open>-0.3\<close>, the new start is 0 and the
  new end is 1.\<close>

theorem update_accepted_effect_witness:
  "element (SingleRegion (interval 2 4) 10) =
     Some \<lparr>style_left = Some (left_percent 2 10), style_right = Some (right_percent 4 10),
        style_cursor = Grab, backgroundColor = ''rgba(0, 0, 0, 0.1)'', part_marker = False,
        handles = True\<rparr> \<and>
   accepted (SingleRegion (interval 2 4) 10) 100 10 None \<and>
   accepted (SingleRegion (interval 2 4) 10) 100 10 (Some Start) \<and>
   accepted (SingleRegion (interval 2 4) 10) 100 10 (Some End) \<and>
   (\<exists>r'. onUpdate (SingleRegion (interval 2 4) 10) (Some 100) 10 None = Ok r' \<and>
      start r' = 3 \<and> end' r' = 5 \<and> events r' = [Update None] \<and>
      element r' =
        Some \<lparr>style_left = Some (left_percent 3 10), style_right = Some (right_percent 5 10),
          style_cursor = Grab, backgroundColor = ''rgba(0, 0, 0, 0.1)'', part_marker = False,
          handles = True\<rparr>) \<and>
   (\<exists>r'. onUpdate (SingleRegion (interval 2 4) 10) (Some 100) 10 (Some Start) = Ok r' \<and>
      start r' = 3 \<and> end' r' = 4 \<and> events r' = [Update (Some Start)]) \<and>
   (\<exists>r'. onUpdate (SingleRegion (interval 2 4) 10) (Some 100) 10 (Some End) = Ok r' \<and>
      start r' = 2 \<and> end' r' = 5 \<and> events r' = [Update (Some End)]) \<and>
   accepted (SingleRegion (interval (lit (3 / 10)) (lit (13 / 10))) 10) 100 (- 3) None \<and>
   (\<exists>r'. onUpdate (SingleRegion (interval (lit (3 / 10)) (lit (13 / 10))) 10) (Some 100) (- 3)
        None = Ok r' \<and>
      start r' = 0 \<and> end' r' = 1 \<and> events r' = [Update None])"
proof -
  let ?r = "SingleRegion (interval 2 4) 10"
  let ?q = "SingleRegion (interval (lit (3 / 10)) (lit (13 / 10))) 10"
  let ?e = "\<lparr>style_left = Some (left_percent 2 10), style_right = Some (right_percent 4 10),
        style_cursor = Grab, backgroundColor = ''rgba(0, 0, 0, 0.1)'', part_marker = False,
        handles = True\<rparr>"
  have e: "element ?r = Some ?e"
    by (simp add: SingleRegion_2_4)
  have g: "start ?r = 2" "end' ?r = 4" "totalDuration ?r = 10" "events ?r = []"
    by (simp_all add: SingleRegion_2_4)
  have d: "js_mul (fl (1 / 10)) (Num 10) = Num 1"
    using deltaSeconds_10_100_10 [OF g(3)] by (simp add: deltaSeconds_def g(3))
  have m: "\<exists>r'. onUpdate ?r (Some 100) 10 None = Ok r' \<and>
      start r' = 3 \<and> end' r' = 5 \<and> events r' = [Update None] \<and>
      element r' =
        Some \<lparr>style_left = Some (left_percent 3 10), style_right = Some (right_percent 5 10),
          style_cursor = Grab, backgroundColor = ''rgba(0, 0, 0, 0.1)'', part_marker = False,
          handles = True\<rparr>"
    using update_accepted_effect [OF e accepted_2_4 [of None]]
    by (auto simp: g d fl_3 fl_5 rendered_def)
  have s: "\<exists>r'. onUpdate ?r (Some 100) 10 (Some Start) = Ok r' \<and>
      start r' = 3 \<and> end' r' = 4 \<and> events r' = [Update (Some Start)]"
    using update_accepted_effect [OF e accepted_2_4 [of "Some Start"]]
    by (auto simp: g d fl_3 fl_5)
  have n: "\<exists>r'. onUpdate ?r (Some 100) 10 (Some End) = Ok r' \<and>
      start r' = 2 \<and> end' r' = 5 \<and> events r' = [Update (Some End)]"
    using update_accepted_effect [OF e accepted_2_4 [of "Some End"]]
    by (auto simp: g d fl_3 fl_5)
  obtain e' where e': "element ?q = Some e'"
    by (cases "element ?q")
      (simp_all add: SingleRegion_def Let_def initElement_def addResizeHandles_def setPart_def
        renderPosition_eq split: prod.splits if_splits)
  have dq: "js_mul (fl (- (3 / 100))) (Num 10) =
      Num (- (5404319552844595 / 18014398509481984))"
    using deltaSeconds_m3_100_10 [OF region_03_13(1)]
    by (simp add: deltaSeconds_def region_03_13(1))
  have z: "\<exists>r'. onUpdate ?q (Some 100) (- 3) None = Ok r' \<and>
      start r' = 0 \<and> end' r' = 1 \<and> events r' = [Update None]"
    using update_accepted_effect [OF e' accepted_03_13]
    by (auto simp: region_03_13 dq fl_0 fl_1_up)
  show ?thesis using e accepted_2_4 accepted_03_13 m s n z by blast
qed

subsection \<open>The playback listener\<close>

lemma region_in_loop_eq:
  "region_in_loop active xs s =
     s\<lparr>emitted := emitted s @ map RegionIn (filter (\<lambda>x. x \<notin> set active) xs)\<rparr>"
  by (induction xs arbitrary: s) (simp_all add: emit_plugin_def)

lemma region_out_loop_eq:
  "region_out_loop new xs s =
     s\<lparr>emitted := emitted s @ map RegionOut (filter (\<lambda>x. x \<notin> set new) xs)\<rparr>"
  by (induction xs arbitrary: s) (simp_all add: emit_plugin_def)

lemma timeupdate_eq:
  assumes "activeRegions s = Some a" and "a \<noteq> next_array s"
  shows "timeupdate s t =
     s\<lparr>arrays := (arrays s)(next_array s \<mapsto> playedRegions s t),
       next_array := Suc (next_array s),
       activeRegions := Some (next_array s),
       emitted := emitted s @
         map RegionIn (filter (\<lambda>x. x \<notin> set (array_of s a)) (playedRegions s t)) @
         map RegionOut (filter (\<lambda>x. x \<notin> set (playedRegions s t)) (array_of s a))\<rparr>"
  using assms
  by (simp add: timeupdate_def new_array_def Let_def region_in_loop_eq region_out_loop_eq
      array_of_def)

lemma playedRegions_timeupdate:
  assumes "fresh_arrays s" and "activeRegions s = Some a"
  shows "playedRegions (timeupdate s t) u = playedRegions s u"
  using assms
  by (simp add: timeupdate_eq [of s a] fresh_arrays_def playedRegions_def array_of_def)

lemma fresh_arrays_timeupdate:
  assumes "fresh_arrays s"
  shows "fresh_arrays (timeupdate s t)"
proof (cases "activeRegions s")
  case None
  then show ?thesis using assms by (simp add: timeupdate_def)
next
  case (Some a)
  then show ?thesis using assms
    by (simp add: timeupdate_eq [of s a] fresh_arrays_def)
qed

lemma active_after_timeupdate:
  assumes "fresh_arrays s" and "activeRegions s = Some a"
  shows "activeRegions (timeupdate s t) = Some (next_array s) \<and>
         array_of (timeupdate s t) (next_array s) = playedRegions s t"
  using assms
  by (simp add: timeupdate_eq [of s a] fresh_arrays_def array_of_def)

lemma expected_transitions_cong:
  "(\<And>u. playedRegions s' u = playedRegions s u) \<Longrightarrow>
   expected_transitions s' prev ts = expected_transitions s prev ts"
  by (induction ts arbitrary: prev) simp_all

lemma emitted_ticks:
  "fresh_arrays s \<Longrightarrow> activeRegions s = Some a \<Longrightarrow>
   emitted (foldl timeupdate s ts) = emitted s @ expected_transitions s (array_of s a) ts"
proof (induction ts arbitrary: s a)
  case Nil
  then show ?case by simp
next
  case (Cons t ts)
  let ?s = "timeupdate s t"
  have f: "fresh_arrays ?s" using Cons.prems(1) by (rule fresh_arrays_timeupdate)
  have a: "activeRegions ?s = Some (next_array s)"
    and p: "array_of ?s (next_array s) = playedRegions s t"
    using active_after_timeupdate [OF Cons.prems] by simp_all
  have ne: "a \<noteq> next_array s" using Cons.prems by (simp add: fresh_arrays_def)
  have e: "emitted ?s = emitted s @
         map RegionIn (filter (\<lambda>x. x \<notin> set (array_of s a)) (playedRegions s t)) @
         map RegionOut (filter (\<lambda>x. x \<notin> set (playedRegions s t)) (array_of s a))"
    by (simp add: timeupdate_eq [OF Cons.prems(2) ne])
  have c: "expected_transitions ?s prev ts = expected_transitions s prev ts" for prev
    by (rule expected_transitions_cong) (rule playedRegions_timeupdate [OF Cons.prems])
  show ?case
    using Cons.IH [OF f a] by (simp add: p e c)
qed

lemma played_iff:
  "played r t \<longleftrightarrow>
     start r < end' r \<and> start r \<le> t \<and> t \<le> end' r \<or>
     start r = end' r \<and> start r \<le> t \<and>
       js_le (Num t) (js_add (Num (start r)) (Num (lit (5 / 100))))"
  by (auto simp: played_def js_ge_def)

subsection \<open>The concrete plugins, evaluated\<close>

lemma element_SingleRegion: "element (SingleRegion p T) \<noteq> None"
  by (simp add: SingleRegion_def Let_def initElement_def addResizeHandles_def setPart_def
      renderPosition_eq split: prod.splits)

lemma events_SingleRegion: "events (SingleRegion p T) = []"
  by (simp add: SingleRegion_def Let_def initElement_def addResizeHandles_def setPart_def
      renderPosition_eq split: prod.splits)

lemmas added_defs = added_def addRegion_def init_def onInit_def create_def
  new_array_def saveRegion_def virtualAppend_def array_write_def array_of_def emit_plugin_def
  host10_def Let_def

lemma plugin_2_4_fields:
  "wavesurfer plugin_2_4 = Some host10"
  "heap plugin_2_4 0 = Some (SingleRegion (interval 2 4) 10)"
  "arrays plugin_2_4 0 = Some [0]"
  "arrays plugin_2_4 (Suc 0) = Some []"
  "regions plugin_2_4 = 0"
  "activeRegions plugin_2_4 = Some (Suc 0)"
  "next_array plugin_2_4 = 2"
  "next_ref plugin_2_4 = Suc 0"
  "emitted plugin_2_4 = [RegionCreated 0]"
  "children plugin_2_4 = []"
  "dom_log plugin_2_4 = []"
  "timers plugin_2_4 = [(0, True)]"
  "subscribed plugin_2_4 = [0]"
  "scroll_listeners plugin_2_4 = []"
  "remove_once plugin_2_4 = []"
  "ready_once plugin_2_4 = []"
  "commands plugin_2_4 = []"
  by (simp_all add: plugin_2_4_def added_defs element_SingleRegion)

lemma fresh_plugin_2_4: "fresh_arrays plugin_2_4"
  by (simp add: fresh_arrays_def plugin_2_4_fields)

lemma played_2_4:
  "playedRegions plugin_2_4 1 = []" "playedRegions plugin_2_4 3 = [0]"
  "playedRegions plugin_2_4 5 = []"
  by (simp_all add: playedRegions_def array_of_def plugin_2_4_fields played_def js_ge_def
      SingleRegion_2_4)

lemma ticks_2_4:
  "emitted (foldl timeupdate plugin_2_4 [1]) = [RegionCreated 0]"
  "emitted (foldl timeupdate plugin_2_4 [1, 3]) = [RegionCreated 0, RegionIn 0]"
  "emitted (foldl timeupdate plugin_2_4 [1, 3, 5]) = [RegionCreated 0, RegionIn 0, RegionOut 0]"
  by (simp_all only: emitted_ticks [OF fresh_plugin_2_4 plugin_2_4_fields(6)])
     (simp_all add: played_2_4 plugin_2_4_fields array_of_def)

lemma plugin_marker_5_fields:
  "heap plugin_marker_5 0 = Some (SingleRegion (marker 5) 10)"
  "arrays plugin_marker_5 0 = Some [0]"
  "regions plugin_marker_5 = 0"
  "activeRegions plugin_marker_5 = Some (Suc 0)"
  "next_array plugin_marker_5 = 2"
  by (simp_all add: plugin_marker_5_def added_defs)

lemma marker_5_geom:
  "start (SingleRegion (marker 5) 10) = 5" "end' (SingleRegion (marker 5) 10) = 5"
  by (simp_all add: start_SingleRegion end_SingleRegion marker_def)

subsection \<open>C4: region-in and region-out\<close>

text \<open>
  C4. From a state in which the playback listener is subscribed, the events emitted over
  any sequence of \<^verbatim>\<open>timeupdate\<close> ticks are those of the specification: at each tick
  one \<^verbatim>\<open>region-in\<close> for every region of the new active set that was not in the active
  set of the tick before, one \<^verbatim>\<open>region-out\<close> for every region of the previous active
  set that is not in the new one, and nothing for the others. With a duration of 10 and the
  region \<open>[2, 4]\<close>, the tick at 1 emits nothing, the tick at 3 emits \<^verbatim>\<open>region-in\<close>
  once, and the tick at 5 emits \<^verbatim>\<open>region-out\<close> once.
\<close>

theorem playback_tracking:
  "(fresh_arrays s \<longrightarrow> activeRegions s = Some a \<longrightarrow>
      emitted (foldl timeupdate s ts) = emitted s @ expected_transitions s (array_of s a) ts) \<and>
   emitted (foldl timeupdate plugin_2_4 [1]) = emitted plugin_2_4 \<and>
   emitted (foldl timeupdate plugin_2_4 [1, 3]) = emitted plugin_2_4 @ [RegionIn 0] \<and>
   emitted (foldl timeupdate plugin_2_4 [1, 3, 5]) =
     emitted plugin_2_4 @ [RegionIn 0, RegionOut 0]"
  using emitted_ticks [of s a ts] ticks_2_4 by (simp add: plugin_2_4_fields)

text \<open>Witness for C4: the plugin with the region \<open>[2, 4]\<close> and the ticks 1, 3, 5; its
  active set is empty before the first tick.\<close>

theorem playback_tracking_witness:
  "fresh_arrays plugin_2_4 \<and> activeRegions plugin_2_4 = Some (Suc 0) \<and>
   array_of plugin_2_4 (Suc 0) = [] \<and>
   expected_transitions plugin_2_4 [] [1, 3, 5] = [RegionIn 0, RegionOut 0] \<and>
   emitted (foldl timeupdate plugin_2_4 [1, 3, 5]) =
     emitted plugin_2_4 @ expected_transitions plugin_2_4 (array_of plugin_2_4 (Suc 0)) [1, 3, 5]"
  using playback_tracking [of plugin_2_4 "Suc 0" "[1, 3, 5]"]
  by (simp add: fresh_plugin_2_4 plugin_2_4_fields array_of_def played_2_4)

subsection \<open>C5: the active set\<close>

text \<open>The literals \<^verbatim>\<open>0.05\<close>, \<^verbatim>\<open>5.03\<close> and \<^verbatim>\<open>5.06\<close>, and the sum
  \<^verbatim>\<open>5 + 0.05\<close>.\<close>

lemma lit_5_100: "lit (1 / 20) = 3602879701896397 / 72057594037927936"
  using fl_normal [of "- 5" "1 / 20"] by (simp add: lit_def round_even_def)

lemma lit_503_100: "lit (503 / 100) = 5663276531418399 / 1125899906842624"
  using fl_normal [of 2 "503 / 100"] by (simp add: lit_def round_even_def)

lemma lit_506_100: "lit (253 / 50) = 5697053528623677 / 1125899906842624"
  using fl_normal [of 2 "253 / 50"] by (simp add: lit_def round_even_def)

lemma window_5: "fl (5 + lit (1 / 20)) = Num (5685794529555251 / 1125899906842624)"
  using fl_normal [of 2 "363890849891536077 / 72057594037927936"]
  by (simp add: lit_5_100 round_even_def)

text \<open>
  C5. After a tick at the time \<open>t\<close> a region object is in the active set if and only if it
  is in the collection and either \<open>start < end\<close> and \<open>start \<le> t \<le> end\<close>, or it is a marker
  and \<open>start \<le> t\<close> and \<open>t\<close> is at most \<^verbatim>\<open>start + 0.05\<close>, the sum of the two doubles. A
  marker at 5 is played at \<^verbatim>\<open>5.03\<close> and is not at \<^verbatim>\<open>5.06\<close>.
\<close>

theorem active_set_membership:
  "(fresh_arrays s \<longrightarrow> activeRegions s = Some a \<longrightarrow> heap s x = Some r \<longrightarrow>
      (\<exists>p. activeRegions (timeupdate s t) = Some p \<and>
         (x \<in> set (array_of (timeupdate s t) p) \<longleftrightarrow>
            x \<in> set (array_of s (regions s)) \<and>
            (start r < end' r \<and> start r \<le> t \<and> t \<le> end' r \<or>
             start r = end' r \<and> start r \<le> t \<and>
               js_le (Num t) (js_add (Num (start r)) (Num (lit (5 / 100)))))))) \<and>
   heap plugin_marker_5 0 = Some (SingleRegion (marker 5) 10) \<and>
   playedRegions plugin_marker_5 (lit (503 / 100)) = [0] \<and>
   playedRegions plugin_marker_5 (lit (506 / 100)) = []"
proof -
  have "\<exists>p. activeRegions (timeupdate s t) = Some p \<and>
         (x \<in> set (array_of (timeupdate s t) p) \<longleftrightarrow>
            x \<in> set (array_of s (regions s)) \<and>
            (start r < end' r \<and> start r \<le> t \<and> t \<le> end' r \<or>
             start r = end' r \<and> start r \<le> t \<and>
               js_le (Num t) (js_add (Num (start r)) (Num (lit (5 / 100))))))"
    if f: "fresh_arrays s" and a: "activeRegions s = Some a" and r: "heap s x = Some r"
  proof -
    have "x \<in> set (playedRegions s t) \<longleftrightarrow>
            x \<in> set (array_of s (regions s)) \<and>
            (start r < end' r \<and> start r \<le> t \<and> t \<le> end' r \<or>
             start r = end' r \<and> start r \<le> t \<and>
               js_le (Num t) (js_add (Num (start r)) (Num (lit (5 / 100)))))"
      using r by (simp add: playedRegions_def played_iff)
    then show ?thesis using active_after_timeupdate [OF f a, of t] by simp
  qed
  moreover have "playedRegions plugin_marker_5 (lit (503 / 100)) = [0]"
    "playedRegions plugin_marker_5 (lit (506 / 100)) = []"
    by (simp_all add: playedRegions_def array_of_def plugin_marker_5_fields played_iff
        marker_5_geom window_5) (simp_all add: lit_503_100 lit_506_100)
  ultimately show ?thesis by (simp add: plugin_marker_5_fields)
qed

text \<open>Witness for C5: the plugin with the marker at 5, ticked at \<^verbatim>\<open>5.03\<close> and at
  \<^verbatim>\<open>5.06\<close>.\<close>

theorem active_set_membership_witness:
  "fresh_arrays plugin_marker_5 \<and> activeRegions plugin_marker_5 = Some (Suc 0) \<and>
   heap plugin_marker_5 0 = Some (SingleRegion (marker 5) 10) \<and>
   (\<exists>p. activeRegions (timeupdate plugin_marker_5 (lit (503 / 100))) = Some p \<and>
      0 \<in> set (array_of (timeupdate plugin_marker_5 (lit (503 / 100))) p)) \<and>
   (\<exists>p. activeRegions (timeupdate plugin_marker_5 (lit (506 / 100))) = Some p \<and>
      0 \<notin> set (array_of (timeupdate plugin_marker_5 (lit (506 / 100))) p))"
proof -
  have f: "fresh_arrays plugin_marker_5"
    by (simp add: fresh_arrays_def plugin_marker_5_fields)
  have c: "array_of plugin_marker_5 0 = [0]"
    by (simp add: array_of_def plugin_marker_5_fields)
  show ?thesis
    using active_set_membership [of plugin_marker_5 "Suc 0" 0 "SingleRegion (marker 5) 10"
        "lit (503 / 100)"]
      active_set_membership [of plugin_marker_5 "Suc 0" 0 "SingleRegion (marker 5) 10"
        "lit (506 / 100)"]
    by (simp add: f c plugin_marker_5_fields marker_5_geom window_5 lit_503_100 lit_506_100)
qed

text \<open>
  The window of a marker ends at the double \<^verbatim>\<open>start + 0.05\<close>. A marker at 0 is played
  at the tick \<^verbatim>\<open>0.05\<close>. A marker at \<^verbatim>\<open>0.35\<close> is not played at the tick
  \<^verbatim>\<open>0.4\<close>: \<^verbatim>\<open>0.35 + 0.05\<close> is the double \<^verbatim>\<open>0.39999999999999997\<close>.
\<close>

lemma lit_35_100: "lit (7 / 20) = 3152519739159347 / 9007199254740992"
  using fl_normal [of "- 2" "7 / 20"] by (simp add: lit_def round_even_def)

lemma lit_4_10: "lit (2 / 5) = 3602879701896397 / 9007199254740992"
  using fl_normal [of "- 2" "2 / 5"] by (simp add: lit_def round_even_def)

lemma marker_window_in_doubles:
  "played (SingleRegion (marker 0) 10) (lit (5 / 100))"
  "\<not> played (SingleRegion (marker (lit (35 / 100))) 10) (lit (4 / 10))"
proof -
  have a: "fl (3602879701896397 / 72057594037927936) = Num (3602879701896397 / 72057594037927936)"
    using fl_normal [of "- 5" "3602879701896397 / 72057594037927936"]
    by (simp add: round_even_def)
  have b: "fl (28823037615171173 / 72057594037927936) = Num (7205759403792793 / 18014398509481984)"
    using fl_normal [of "- 2" "28823037615171173 / 72057594037927936"]
    by (simp add: round_even_def)
  show "played (SingleRegion (marker 0) 10) (lit (5 / 100))"
    by (simp add: played_iff start_SingleRegion end_SingleRegion marker_def lit_5_100 a)
  show "\<not> played (SingleRegion (marker (lit (35 / 100))) 10) (lit (4 / 10))"
    by (simp add: played_iff start_SingleRegion end_SingleRegion marker_def lit_5_100 lit_35_100
        lit_4_10 b)
qed

subsection \<open>The listeners of \<^verbatim>\<open>ready\<close>\<close>

lemma setTotalDuration_alive:
  assumes "element r = Some e"
  shows "setTotalDuration r d =
     Ok (r\<lparr>totalDuration := d, element := Some (rendered (start r) (end' r) d e)\<rparr>)"
  using assms by (simp add: setTotalDuration_def renderPosition_eq)

lemma saveRegion_eq:
  "saveRegion s x =
     s\<lparr>timers := timers s @ [(x, alive s x)],
       arrays := (arrays s)(regions s \<mapsto> array_of s (regions s) @ [x]),
       subscribed := subscribed s @ [x],
       emitted := emitted s @ [RegionCreated x]\<rparr>"
  by (simp add: saveRegion_def virtualAppend_def array_write_def emit_plugin_def Let_def
      array_of_def alive_def)

lemma ready_listener_alive:
  assumes "heap s y = Some r" and "element r = Some e"
  shows "ready_listener d s y =
     Ok (s\<lparr>heap := (heap s)(y \<mapsto> state_of (setTotalDuration r d)),
           timers := timers s @ [(y, True)],
           arrays := (arrays s)(regions s \<mapsto> array_of s (regions s) @ [y]),
           subscribed := subscribed s @ [y],
           emitted := emitted s @ [RegionCreated y]\<rparr>)"
  using assms
  by (simp add: ready_listener_def setTotalDuration_alive saveRegion_eq alive_def array_of_def)

lemma run_ready_alive:
  "list_all (alive s) ys \<Longrightarrow>
   \<exists>s'. run_ready d ys s = Ok s' \<and> regions s' = regions s \<and>
     array_of s' (regions s) = array_of s (regions s) @ ys \<and>
     emitted s' = emitted s @ map RegionCreated ys \<and>
     timers s' = timers s @ map (\<lambda>y. (y, True)) ys \<and>
     subscribed s' = subscribed s @ ys \<and>
     (ys \<noteq> [] \<longrightarrow> ready_once s' = []) \<and>
     (\<forall>y r. heap s y = Some r \<longrightarrow>
        (\<exists>r'. heap s' y = Some r' \<and> start r' = start r \<and> end' r' = end' r \<and>
           (element r \<noteq> None \<longrightarrow> element r' \<noteq> None) \<and>
           totalDuration r' = (if y \<in> set ys then d else totalDuration r)))"
proof (induction ys arbitrary: s)
  case Nil
  then show ?case by simp
next
  case (Cons x xs)
  let ?s0 = "s\<lparr>ready_once := xs\<rparr>"
  from Cons.prems obtain r e where r: "heap s x = Some r" "element r = Some e"
    by (auto simp: alive_def split: option.splits)
  let ?r' = "state_of (setTotalDuration r d)"
  let ?s1 = "?s0\<lparr>heap := (heap ?s0)(x \<mapsto> ?r'),
           timers := timers ?s0 @ [(x, True)],
           arrays := (arrays ?s0)(regions ?s0 \<mapsto> array_of ?s0 (regions ?s0) @ [x]),
           subscribed := subscribed ?s0 @ [x],
           emitted := emitted ?s0 @ [RegionCreated x]\<rparr>"
  have step: "ready_listener d ?s0 x = Ok ?s1"
    using r by (intro ready_listener_alive) simp_all
  have r': "start ?r' = start r" "end' ?r' = end' r" "totalDuration ?r' = d" "element ?r' \<noteq> None"
    using r by (simp_all add: setTotalDuration_alive)
  have "list_all (alive ?s1) xs"
    using Cons.prems r' by (auto simp: alive_def list_all_iff split: option.splits)
  from Cons.IH [OF this] obtain s' where s':
    "run_ready d xs ?s1 = Ok s'" "regions s' = regions ?s1"
    "array_of s' (regions ?s1) = array_of ?s1 (regions ?s1) @ xs"
    "emitted s' = emitted ?s1 @ map RegionCreated xs"
    "timers s' = timers ?s1 @ map (\<lambda>y. (y, True)) xs"
    "subscribed s' = subscribed ?s1 @ xs"
    "xs \<noteq> [] \<longrightarrow> ready_once s' = []"
    "\<forall>y r. heap ?s1 y = Some r \<longrightarrow>
        (\<exists>r'. heap s' y = Some r' \<and> start r' = start r \<and> end' r' = end' r \<and>
           (element r \<noteq> None \<longrightarrow> element r' \<noteq> None) \<and>
           totalDuration r' = (if y \<in> set xs then d else totalDuration r))"
    by blast
  have run: "run_ready d (x # xs) s = Ok s'"
    using step s'(1) by simp
  have ro: "ready_once s' = []"
  proof (cases xs)
    case Nil
    then show ?thesis using s'(1) by auto
  next
    case (Cons a list)
    then show ?thesis using s'(7) by simp
  qed
  have hp: "\<exists>r'. heap s' y = Some r' \<and> start r' = start q \<and> end' r' = end' q \<and>
           (element q \<noteq> None \<longrightarrow> element r' \<noteq> None) \<and>
           totalDuration r' = (if y \<in> set (x # xs) then d else totalDuration q)"
    if q: "heap s y = Some q" for y q
  proof (cases "y = x")
    case True
    then have "heap ?s1 y = Some ?r'" by simp
    with s'(8) obtain r2 where "heap s' y = Some r2" "start r2 = start ?r'" "end' r2 = end' ?r'"
      "element ?r' \<noteq> None \<longrightarrow> element r2 \<noteq> None"
      "totalDuration r2 = (if y \<in> set xs then d else totalDuration ?r')"
      by blast
    then show ?thesis using True q r r' by auto
  next
    case False
    then have "heap ?s1 y = Some q" using q by simp
    with s'(8) obtain r2 where "heap s' y = Some r2" "start r2 = start q" "end' r2 = end' q"
      "element q \<noteq> None \<longrightarrow> element r2 \<noteq> None"
      "totalDuration r2 = (if y \<in> set xs then d else totalDuration q)"
      by blast
    then show ?thesis using False by auto
  qed
  show ?case
    using run s'(2-6) ro hp by (auto simp: array_of_def)
qed

lemma addRegion_deferred:
  assumes "wavesurfer s = Some h" and "getDuration h = 0"
  shows "addRegion s p =
     Inr (next_ref s,
          s\<lparr>heap := (heap s)(next_ref s \<mapsto> SingleRegion p 0), next_ref := Suc (next_ref s),
            ready_once := ready_once s @ [next_ref s]\<rparr>)"
  using assms by (simp add: addRegion_def Let_def)

lemma collapsed_SingleRegion: "start (SingleRegion p 0) = 0" "end' (SingleRegion p 0) = 0"
  by (simp_all add: start_SingleRegion end_SingleRegion)

lemma deferred_run:
  assumes w: "wavesurfer s = Some h" and z: "getDuration h = 0"
    and pa: "pending_alive s" and rb: "refs_below s"
  shows "\<exists>x s1 s2 r. addRegion s p = Inr (x, s1) \<and> x \<notin> set (array_of s1 (regions s1)) \<and>
     emitted s1 = emitted s \<and> timers s1 = timers s \<and> subscribed s1 = subscribed s \<and>
     heap s1 x = Some (SingleRegion p 0) \<and>
     ready s1 d = Ok s2 \<and> regions s2 = regions s \<and>
     array_of s2 (regions s2) = array_of s (regions s) @ ready_once s @ [x] \<and>
     count_list (array_of s2 (regions s2)) x = 1 \<and>
     emitted s2 = emitted s @ map RegionCreated (ready_once s @ [x]) \<and>
     timers s2 = timers s @ map (\<lambda>y. (y, True)) (ready_once s @ [x]) \<and>
     subscribed s2 = subscribed s @ ready_once s @ [x] \<and>
     ready_once s2 = [] \<and>
     heap s2 x = Some r \<and> totalDuration r = d \<and> start r = 0 \<and> end' r = 0"
proof -
  define x where "x = next_ref s"
  define s1 where "s1 = s\<lparr>heap := (heap s)(x \<mapsto> SingleRegion p 0), next_ref := Suc x,
            ready_once := ready_once s @ [x]\<rparr>"
  have a: "addRegion s p = Inr (x, s1)"
    using addRegion_deferred [OF w z] by (simp add: x_def s1_def)
  have xc: "x \<notin> set (array_of s (regions s))" and xr: "x \<notin> set (ready_once s)"
    using rb by (auto simp: refs_below_def list_all_iff x_def)
  have n: "x \<notin> set (array_of s1 (regions s1))"
    using xc by (simp add: s1_def array_of_def)
  let ?s = "s1\<lparr>wavesurfer := map_option (\<lambda>h. h\<lparr>getDuration := d\<rparr>) (wavesurfer s1)\<rparr>"
  have al: "list_all (alive ?s) (ready_once s @ [x])"
    using pa element_SingleRegion [of p 0]
    by (auto simp: pending_alive_def list_all_iff alive_def s1_def split: option.splits)
  have hx: "heap ?s x = Some (SingleRegion p 0)" by (simp add: s1_def)
  from run_ready_alive [OF al, of d] obtain s2 where s2:
    "run_ready d (ready_once s @ [x]) ?s = Ok s2" "regions s2 = regions ?s"
    "array_of s2 (regions ?s) = array_of ?s (regions ?s) @ ready_once s @ [x]"
    "emitted s2 = emitted ?s @ map RegionCreated (ready_once s @ [x])"
    "timers s2 = timers ?s @ map (\<lambda>y. (y, True)) (ready_once s @ [x])"
    "subscribed s2 = subscribed ?s @ ready_once s @ [x]"
    "ready_once s @ [x] \<noteq> [] \<longrightarrow> ready_once s2 = []"
    "\<forall>y r. heap ?s y = Some r \<longrightarrow>
        (\<exists>r'. heap s2 y = Some r' \<and> start r' = start r \<and> end' r' = end' r \<and>
           (element r \<noteq> None \<longrightarrow> element r' \<noteq> None) \<and>
           totalDuration r' = (if y \<in> set (ready_once s @ [x]) then d else totalDuration r))"
    by blast
  from s2(8) hx obtain r where r: "heap s2 x = Some r" "start r = start (SingleRegion p 0)"
    "end' r = end' (SingleRegion p 0)" "totalDuration r = d"
    by fastforce
  have rd: "ready s1 d = Ok s2"
    using s2(1) by (simp add: ready_def s1_def)
  have arr: "array_of s2 (regions s2) = array_of s (regions s) @ ready_once s @ [x]"
    using s2(2,3) by (simp add: s1_def array_of_def)
  have cnt: "count_list (array_of s2 (regions s2)) x = 1"
    using xc xr by (simp add: arr count_list_0_iff)
  have s1f: "emitted s1 = emitted s" "timers s1 = timers s" "subscribed s1 = subscribed s"
    "heap s1 x = Some (SingleRegion p 0)" "regions s1 = regions s"
    by (simp_all add: s1_def)
  have s2f: "regions s2 = regions s" "emitted s2 = emitted s @ map RegionCreated (ready_once s @ [x])"
    "timers s2 = timers s @ map (\<lambda>y. (y, True)) (ready_once s @ [x])"
    "subscribed s2 = subscribed s @ ready_once s @ [x]" "ready_once s2 = []"
    using s2(2,4,5,6,7) by (simp_all add: s1_def)
  show ?thesis
    using a n rd s1f s2f arr cnt r collapsed_SingleRegion [of p] by auto
qed

lemma ready_nothing_pending:
  assumes "ready_once s = []"
  shows "\<exists>s'. ready s d = Ok s' \<and> array_of s' (regions s') = array_of s (regions s) \<and>
     emitted s' = emitted s \<and> heap s' = heap s"
  using assms by (simp add: ready_def array_of_def)

lemma plugin0_fields:
  "wavesurfer plugin0 = Some host0"
  "getDuration host0 = 0"
  "ready_once plugin0 = []"
  "array_of plugin0 (regions plugin0) = []"
  "emitted plugin0 = []"
  "timers plugin0 = []"
  "subscribed plugin0 = []"
  "next_ref plugin0 = 0"
  by (simp_all add: plugin0_def init_def onInit_def create_def new_array_def array_of_def
      host0_def Let_def)

lemma plugin0_wf: "pending_alive plugin0" "refs_below plugin0"
  by (simp_all add: pending_alive_def refs_below_def plugin0_fields)

text \<open>
  When no waiting region has been removed, deferred creation does what the specification
  says: \<^verbatim>\<open>addRegion\<close> returns the region at once, and the region is not in the
  collection: nothing has been emitted, no timer set and no listener subscribed. When the
  host then signals \<^verbatim>\<open>ready\<close> with the duration \<open>d\<close>, the call returns normally, the
  region's \<^verbatim>\<open>totalDuration\<close> is \<open>d\<close>, the region is in the collection exactly once,
  with the effects of \<^verbatim>\<open>saveRegion\<close> (\<^verbatim>\<open>region-created\<close>, the timer of the
  virtualization, the listeners); a later \<^verbatim>\<open>ready\<close> adds nothing.
\<close>

lemma deferred_persistence_alive:
  assumes "wavesurfer s = Some h" and "getDuration h = 0"
    and "pending_alive s" and "refs_below s"
  shows "\<exists>x s1 s2 r.
     addRegion s p = Inr (x, s1) \<and>
     x \<notin> set (array_of s1 (regions s1)) \<and>
     emitted s1 = emitted s \<and> timers s1 = timers s \<and> subscribed s1 = subscribed s \<and>
     ready s1 d = Ok s2 \<and>
     heap s2 x = Some r \<and> totalDuration r = d \<and>
     array_of s2 (regions s2) = array_of s (regions s) @ ready_once s @ [x] \<and>
     count_list (array_of s2 (regions s2)) x = 1 \<and>
     emitted s2 = emitted s @ map RegionCreated (ready_once s @ [x]) \<and>
     timers s2 = timers s @ map (\<lambda>y. (y, True)) (ready_once s @ [x]) \<and>
     subscribed s2 = subscribed s @ ready_once s @ [x] \<and>
     (\<exists>s3. ready s2 d' = Ok s3 \<and> array_of s3 (regions s3) = array_of s2 (regions s2) \<and>
        emitted s3 = emitted s2)"
proof -
  from deferred_run [OF assms, of p d] obtain x s1 s2 r where *:
    "addRegion s p = Inr (x, s1)" "x \<notin> set (array_of s1 (regions s1))"
    "emitted s1 = emitted s" "timers s1 = timers s" "subscribed s1 = subscribed s"
    "ready s1 d = Ok s2"
    "array_of s2 (regions s2) = array_of s (regions s) @ ready_once s @ [x]"
    "count_list (array_of s2 (regions s2)) x = 1"
    "emitted s2 = emitted s @ map RegionCreated (ready_once s @ [x])"
    "timers s2 = timers s @ map (\<lambda>y. (y, True)) (ready_once s @ [x])"
    "subscribed s2 = subscribed s @ ready_once s @ [x]"
    "ready_once s2 = []"
    "heap s2 x = Some r" "totalDuration r = d"
    by blast
  from ready_nothing_pending [OF *(12), of d'] obtain s3 where
    "ready s2 d' = Ok s3" "array_of s3 (regions s3) = array_of s2 (regions s2)"
    "emitted s3 = emitted s2"
    by blast
  with * show ?thesis by blast
qed

text \<open>A region constructed with the total duration 0.\<close>

lemma SingleRegion_interval_0:
  "SingleRegion (interval a b) 0 =
     \<lparr>totalDuration = 0, start = 0, end' = 0, minLength = 0, maxLength = Infinity,
      drag = True, resize = True, color = ''rgba(0, 0, 0, 0.1)'',
      element = Some \<lparr>style_left = Some NaN, style_right = Some NaN, style_cursor = Grab,
        backgroundColor = ''none'', part_marker = True, handles = False\<rparr>,
      subscriptions = [(DragSub, True)], events = []\<rparr>"
  by (simp add: SingleRegion_def interval_def clampPosition_def initElement_def isMarker_def
      addResizeHandles_def setPart_def renderPosition_def js_sub_def fl_0 Let_def)

text \<open>The plugin \<open>blocked\<close>: the removed region 0 and the region 1 both wait for
  \<^verbatim>\<open>ready\<close>, and nothing is in the collection.\<close>

lemma blocked_fields:
  "wavesurfer blocked = Some host0"
  "heap blocked 0 = Some ((SingleRegion (interval 1 2) 0)
      \<lparr>element := None, subscriptions := [(DragSub, False)], events := [Remove]\<rparr>)"
  "heap blocked (Suc 0) = Some (SingleRegion (interval 3 4) 0)"
  "ready_once blocked = [0, Suc 0]"
  "regions blocked = 0"
  "arrays blocked 0 = Some []"
  "emitted blocked = []"
  "timers blocked = []"
  "subscribed blocked = []"
  by (simp_all add: blocked_def plugin0_def added_def addRegion_def init_def onInit_def
      create_def new_array_def host0_def Let_def region_remove_def remove_def emit_def
      deliver_def notify_def remove_element_def SingleRegion_interval_0)

lemma ready_blocked:
  "ready blocked d =
     Throw TypeError
       (blocked\<lparr>wavesurfer := Some (host0\<lparr>getDuration := d\<rparr>),
          heap := (heap blocked)(0 \<mapsto> (SingleRegion (interval 1 2) 0)
            \<lparr>element := None, subscriptions := [(DragSub, False)], events := [Remove],
             totalDuration := d\<rparr>)\<rparr>)"
  by (simp add: ready_def blocked_fields ready_listener_def setTotalDuration_def
      renderPosition_def)

subsection \<open>C6: a region added before the duration is known\<close>

text \<open>
  C6 fails in the code. On a host whose duration is 0, \<^verbatim>\<open>addRegion({start: 1, end: 2})\<close>
  returns the region 0, which the caller removes; \<^verbatim>\<open>addRegion({start: 3, end: 4})\<close>
  returns the region 1. Both wait for \<^verbatim>\<open>ready\<close> and neither is in the collection;
  the region 1 has its element. When the host signals \<^verbatim>\<open>ready\<close> with the duration
  10, the listener of the region 0 runs first and throws a \<^verbatim>\<open>TypeError\<close> in
  \<^verbatim>\<open>_setTotalDuration\<close> (\<^verbatim>\<open>this.element\<close> is \<^verbatim>\<open>null\<close>). The emission ends
  there: the region 1 keeps the \<^verbatim>\<open>totalDuration\<close> 0, it is not in the collection,
  \<^verbatim>\<open>region-created\<close> is not emitted, and both listeners are still subscribed, so
  the next \<^verbatim>\<open>ready\<close> ends in the same way.
\<close>

theorem deferred_persistence_blocked:
  "ready_once blocked = [0, Suc 0] \<and>
   array_of blocked (regions blocked) = [] \<and>
   alive blocked (Suc 0) \<and>
   thrown (ready blocked 10) = Some TypeError \<and>
   map_option totalDuration (heap (state_of (ready blocked 10)) (Suc 0)) = Some 0 \<and>
   array_of (state_of (ready blocked 10)) (regions (state_of (ready blocked 10))) = [] \<and>
   emitted (state_of (ready blocked 10)) = [] \<and>
   ready_once (state_of (ready blocked 10)) = [0, Suc 0] \<and>
   thrown (ready (state_of (ready blocked 10)) 10) = Some TypeError \<and>
   array_of (state_of (ready (state_of (ready blocked 10)) 10))
     (regions (state_of (ready (state_of (ready blocked 10)) 10))) = []"
proof -
  let ?s = "state_of (ready blocked 10)"
  have f: "ready_once ?s = [0, Suc 0]" "regions ?s = 0" "arrays ?s 0 = Some []"
    "emitted ?s = []" "wavesurfer ?s = Some (host0\<lparr>getDuration := 10\<rparr>)"
    "heap ?s 0 = Some ((SingleRegion (interval 1 2) 0)
      \<lparr>element := None, subscriptions := [(DragSub, False)], events := [Remove],
       totalDuration := 10\<rparr>)"
    "heap ?s (Suc 0) = Some (SingleRegion (interval 3 4) 0)"
    by (simp_all add: ready_blocked blocked_fields)
  have a: "ready_once blocked = [0, Suc 0]" "array_of blocked (regions blocked) = []"
    "alive blocked (Suc 0)"
    by (simp_all add: blocked_fields array_of_def alive_def SingleRegion_interval_0)
  have b: "thrown (ready blocked 10) = Some TypeError" by (simp add: ready_blocked)
  have c: "map_option totalDuration (heap ?s (Suc 0)) = Some 0"
    by (simp add: f SingleRegion_interval_0)
  have d: "array_of ?s (regions ?s) = []" by (simp add: f array_of_def)
  have r: "ready ?s 10 = Throw TypeError ?s"
    by (simp add: ready_def f ready_listener_def setTotalDuration_def renderPosition_def
        ready_blocked blocked_fields)
  have e: "thrown (ready ?s 10) = Some TypeError" by (simp add: r)
  have g: "array_of (state_of (ready ?s 10)) (regions (state_of (ready ?s 10))) = []"
    by (simp add: r d)
  show ?thesis using a b c d f(1,4) e g by simp
qed

subsection \<open>C10: a region added before the duration is known is a marker at 0\<close>

text \<open>
  C10. Whatever \<^verbatim>\<open>start\<close> and \<^verbatim>\<open>end\<close> are asked for, a region constructed with
  the total duration 0 has \<open>start = end = 0\<close>, and that is the region \<^verbatim>\<open>addRegion\<close>
  stores and returns on a host whose duration is 0. \<^verbatim>\<open>_setTotalDuration(d)\<close> returns
  the same region with \<^verbatim>\<open>totalDuration\<close> set to \<open>d\<close> and the two percentages of the
  element written anew, for the old \<^verbatim>\<open>start\<close> and \<^verbatim>\<open>end\<close> and the duration
  \<open>d\<close>; no other field changes. When the \<^verbatim>\<open>ready\<close> listener of a region that has
  its element runs, it stores exactly that region and puts it into the collection. So a
  region created at the duration 0 is in the collection as a marker at time 0.
\<close>

theorem deferred_region_collapses:
  "start (SingleRegion p 0) = 0 \<and> end' (SingleRegion p 0) = 0 \<and>
   (wavesurfer s = Some h \<longrightarrow> getDuration h = 0 \<longrightarrow>
      (\<exists>s1. addRegion s p = Inr (next_ref s, s1) \<and>
         heap s1 (next_ref s) = Some (SingleRegion p 0) \<and>
         next_ref s \<in> set (ready_once s1))) \<and>
   (element r = Some e \<longrightarrow>
      setTotalDuration r d =
        Ok (r\<lparr>totalDuration := d, element := Some (rendered (start r) (end' r) d e)\<rparr>)) \<and>
   (heap s' x = Some r \<longrightarrow> element r = Some e \<longrightarrow>
      (\<exists>s2. ready_listener d s' x = Ok s2 \<and>
         heap s2 x =
           Some (r\<lparr>totalDuration := d, element := Some (rendered (start r) (end' r) d e)\<rparr>) \<and>
         array_of s2 (regions s2) = array_of s' (regions s') @ [x]))"
proof -
  have a: "\<exists>s1. addRegion s p = Inr (next_ref s, s1) \<and>
         heap s1 (next_ref s) = Some (SingleRegion p 0) \<and>
         next_ref s \<in> set (ready_once s1)"
    if "wavesurfer s = Some h" "getDuration h = 0"
    using addRegion_deferred [OF that, of p] by simp
  have b: "\<exists>s2. ready_listener d s' x = Ok s2 \<and>
         heap s2 x =
           Some (r\<lparr>totalDuration := d, element := Some (rendered (start r) (end' r) d e)\<rparr>) \<and>
         array_of s2 (regions s2) = array_of s' (regions s') @ [x]"
    if "heap s' x = Some r" "element r = Some e"
    using ready_listener_alive [OF that, of d] that(2)
    by (simp add: setTotalDuration_alive array_of_def)
  show ?thesis
    using a b collapsed_SingleRegion [of p] setTotalDuration_alive [of r e d] by blast
qed

text \<open>
  Witness for C10: \<^verbatim>\<open>addRegion({start: 1, end: 2})\<close> on a host of duration 0, then
  \<^verbatim>\<open>ready\<close> with 10. The region is a marker at 0 before and after; its element,
  rendered for the duration 0 with \<^verbatim>\<open>NaN\<close> on both sides, is rendered anew with the
  left side at 0 percent and the right side at 100 percent.
\<close>

theorem deferred_region_collapses_witness:
  "wavesurfer plugin0 = Some host0 \<and> getDuration host0 = 0 \<and>
   start (SingleRegion (interval 1 2) 0) = 0 \<and> end' (SingleRegion (interval 1 2) 0) = 0 \<and>
   element (SingleRegion (interval 1 2) 0) =
     Some \<lparr>style_left = Some NaN, style_right = Some NaN, style_cursor = Grab,
       backgroundColor = ''none'', part_marker = True, handles = False\<rparr> \<and>
   heap (added plugin0 (interval 1 2)) 0 = Some (SingleRegion (interval 1 2) 0) \<and>
   ready_once (added plugin0 (interval 1 2)) = [0] \<and>
   (\<exists>s2. ready (added plugin0 (interval 1 2)) 10 = Ok s2 \<and>
      heap s2 0 =
        Some \<lparr>totalDuration = 10, start = 0, end' = 0, minLength = 0, maxLength = Infinity,
          drag = True, resize = True, color = ''rgba(0, 0, 0, 0.1)'',
          element = Some \<lparr>style_left = Some (Num 0), style_right = Some (Num 100),
            style_cursor = Grab, backgroundColor = ''none'', part_marker = True,
            handles = False\<rparr>,
          subscriptions = [(DragSub, True)], events = []\<rparr> \<and>
      array_of s2 (regions s2) = [0])"
proof -
  let ?r = "SingleRegion (interval 1 2) 0"
  let ?e = "\<lparr>style_left = Some NaN, style_right = Some NaN, style_cursor = Grab,
       backgroundColor = ''none'', part_marker = True, handles = False\<rparr>"
  let ?s = "(added plugin0 (interval 1 2))\<lparr>wavesurfer := Some (host0\<lparr>getDuration := 10\<rparr>),
      ready_once := []\<rparr>"
  have e: "element ?r = Some ?e" by (simp add: SingleRegion_interval_0)
  have p: "added plugin0 (interval 1 2) =
      plugin0\<lparr>heap := (heap plugin0)(0 \<mapsto> ?r), next_ref := Suc 0, ready_once := [0]\<rparr>"
    using addRegion_deferred [OF plugin0_fields(1,2), of "interval 1 2"]
    by (simp add: added_def plugin0_fields)
  have h: "heap ?s 0 = Some ?r" by (simp add: p)
  have c: "array_of ?s (regions ?s) = []"
    using plugin0_fields(4) by (simp add: p array_of_def)
  have pc: "rendered 0 0 10 ?e =
      \<lparr>style_left = Some (Num 0), style_right = Some (Num 100), style_cursor = Grab,
       backgroundColor = ''none'', part_marker = True, handles = False\<rparr>"
    by (simp add: rendered_def left_percent_def right_percent_def js_sub_def fl_0 fl_1 fl_10
        fl_100)
  have "\<exists>s2. ready_listener 10 ?s 0 = Ok s2 \<and>
      heap s2 0 =
        Some (?r\<lparr>totalDuration := 10, element := Some (rendered (start ?r) (end' ?r) 10 ?e)\<rparr>) \<and>
      array_of s2 (regions s2) = array_of ?s (regions ?s) @ [0]"
    using deferred_region_collapses [of "interval 1 2" plugin0 host0 ?r ?e 10 ?s 0] e h
    by blast
  then obtain s2 where l: "ready_listener 10 ?s 0 = Ok s2"
    "heap s2 0 =
       Some (?r\<lparr>totalDuration := 10, element := Some (rendered (start ?r) (end' ?r) 10 ?e)\<rparr>)"
    "array_of s2 (regions s2) = array_of ?s (regions ?s) @ [0]"
    by blast
  have rd: "ready (added plugin0 (interval 1 2)) 10 = Ok s2"
    using l(1) by (simp add: ready_def p plugin0_fields)
  have g: "start ?r = 0" "end' ?r = 0" by (rule collapsed_SingleRegion)+
  have hs: "heap s2 0 =
        Some \<lparr>totalDuration = 10, start = 0, end' = 0, minLength = 0, maxLength = Infinity,
          drag = True, resize = True, color = ''rgba(0, 0, 0, 0.1)'',
          element = Some \<lparr>style_left = Some (Num 0), style_right = Some (Num 100),
            style_cursor = Grab, backgroundColor = ''none'', part_marker = True,
            handles = False\<rparr>,
          subscriptions = [(DragSub, True)], events = []\<rparr>"
    unfolding l(2) g pc by (simp add: SingleRegion_interval_0)
  have cs: "array_of s2 (regions s2) = [0]"
    unfolding l(3) c by simp
  have q: "heap (added plugin0 (interval 1 2)) 0 = Some ?r"
    "ready_once (added plugin0 (interval 1 2)) = [0]"
    by (simp_all add: p plugin0_fields)
  show ?thesis
    using plugin0_fields(1,2) g e q rd hs cs by simp
qed

subsection \<open>Virtualization of the region \<open>[2, 4]\<close>\<close>

text \<open>\<^verbatim>\<open>(2 / 10) * 1000\<close> is 200.\<close>

lemma fl_1_5: "fl (1 / 5) = Num (3602879701896397 / 18014398509481984)"
  using fl_normal [of "- 3" "1 / 5"] by (simp add: round_even_def)

lemma px_200: "js_mul (fl (1 / 5)) (Num 1000) = Num 200"
  using fl_normal [of 7 "3602879701896397 / 18014398509481984 * 1000"]
  by (simp add: fl_1_5 round_even_def)

lemma fl_400: "fl 400 = Num 400" using fl_int [of 8 400] by simp
lemma fl_500: "fl 500 = Num 500" using fl_int [of 8 500] by simp

lemma visible_2_4: "isVisible host10 (SingleRegion (interval 2 4) 10)"
  by (simp add: isVisible_def host10_def SingleRegion_2_4 js_sub_def fl_2 px_200 or_one_def
      js_gt_def fl_400 fl_500 Let_def)

lemma not_visible_2_4: "\<not> isVisible (host10\<lparr>getScroll := 600\<rparr>) (SingleRegion (interval 2 4) 10)"
  by (simp add: isVisible_def host10_def SingleRegion_2_4 js_sub_def fl_2 px_200 or_one_def
      js_gt_def fl_400 Let_def)

text \<open>
  The pixels are rounded from the doubles. In a track of 10 seconds drawn 45 pixels wide,
  a marker at 7 starts at the pixel 31, since \<^verbatim>\<open>(7 / 10) * 45\<close> is the double
  \<^verbatim>\<open>31.499999999999996\<close>; it ends at the pixel 32 and is not visible in a window
  that starts at the pixel 32.
\<close>

lemma isVisible_rounds_down:
  "\<not> isVisible \<lparr>getDuration = 10, getScroll = 32, getWidth = 10, container_clientWidth = 45,
       container_width = 45\<rparr> (SingleRegion (marker 7) 10)"
proof -
  have a: "js_mul (fl (7 / 10)) (Num 45) = Num (8866461766385663 / 281474976710656)"
    using fl_normal [of 4 "3152519739159347 / 4503599627370496 * 45"]
    by (simp add: fl_7_10 round_even_def)
  have b: "fl 32 = Num 32" using fl_int [of 5 32] by simp
  have c: "\<lfloor>8866461766385663 / 281474976710656 + 1 / 2 :: real\<rfloor> = 31"
    by (simp add: floor_eq_iff)
  show ?thesis
    by (simp add: isVisible_def start_SingleRegion end_SingleRegion marker_def js_sub_def fl_0 a
        b c or_one_def js_gt_def Let_def)
qed

lemma timers_run_2_4:
  "wavesurfer (run_timers plugin_2_4) = Some host10"
  "heap (run_timers plugin_2_4) 0 = Some (SingleRegion (interval 2 4) 10)"
  "children (run_timers plugin_2_4) = [0]"
  "dom_log (run_timers plugin_2_4) = [Attach 0]"
  "scroll_listeners (run_timers plugin_2_4) = [0]"
  "remove_once (run_timers plugin_2_4) = [0]"
  "timers (run_timers plugin_2_4) = []"
  by (simp_all add: run_timers_def run_timer_def renderIfVisible_def appendChild_def
      plugin_2_4_fields visible_2_4 Let_def)

lemma host10_scroll_0: "host10\<lparr>getScroll := 0\<rparr> = host10"
  by (simp add: host10_def)

lemma renderIfVisible_children:
  assumes "wavesurfer s = Some h" and "heap s x = Some r"
  shows "x \<in> set (children (renderIfVisible s x)) \<longleftrightarrow> isVisible h r"
  using assms by (simp add: renderIfVisible_def appendChild_def remove_element_def)

subsection \<open>C7: virtualization\<close>

text \<open>
  C7, at an input where the code does not do what the claim says. The plugin on the host
  of 10 seconds, 1000 pixels wide and showing the pixels from 0 to 500, has the region
  \<open>[2, 4]\<close>, whose pixels are 200 to 400. The timer of \<^verbatim>\<open>virtualAppend\<close> attaches the
  element. The host then emits \<^verbatim>\<open>scroll\<close> at the same position 0: the region is
  visible as before, and \<^verbatim>\<open>renderIfVisible\<close> calls \<^verbatim>\<open>container.appendChild\<close> again,
  which takes the element out of the container and puts it back. The claim says that such
  a recomputation performs no attach or detach operation.
\<close>

theorem virtualization_churn:
  "children (run_timers plugin_2_4) = [0] \<and>
   dom_log (run_timers plugin_2_4) = [Attach 0] \<and>
   wavesurfer (scroll (run_timers plugin_2_4) 0) = wavesurfer (run_timers plugin_2_4) \<and>
   children (scroll (run_timers plugin_2_4) 0) = [0] \<and>
   dom_log (scroll (run_timers plugin_2_4) 0) = [Attach 0, Detach 0, Attach 0]"
  by (simp add: scroll_def renderIfVisible_def appendChild_def timers_run_2_4 visible_2_4
      host10_scroll_0 Let_def)

subsection \<open>Removing a region\<close>

lemma remove_alive:
  assumes "element r = Some e"
  shows "remove r =
     Ok (r\<lparr>events := events r @ [Remove],
           subscriptions := map (\<lambda>(k, live). (k, False)) (subscriptions r),
           element := None\<rparr>)"
  using assms by (simp add: remove_def emit_def Let_def)

lemma notify_Remove_subscribed:
  assumes "x \<in> set (subscribed s)"
  shows "notify s x Remove =
     s\<lparr>subscribed := removeAll x (subscribed s),
       arrays := (arrays s)(next_array s \<mapsto> filter (\<lambda>reg. reg \<noteq> x) (array_of s (regions s))),
       next_array := Suc (next_array s),
       regions := next_array s,
       emitted := emitted s @ [RegionRemoved x],
       scroll_listeners := (if x \<in> set (remove_once s) then removeAll x (scroll_listeners s)
                            else scroll_listeners s),
       remove_once := removeAll x (remove_once s)\<rparr>"
  using assms
  by (simp add: notify_def new_array_def emit_plugin_def array_of_def Let_def)

lemma region_remove_persisted:
  assumes r: "heap s x = Some r" and e: "element r = Some e" and p: "x \<in> set (subscribed s)"
  shows "region_remove s x =
     Ok (s\<lparr>heap := (heap s)(x \<mapsto> r\<lparr>events := events r @ [Remove],
             subscriptions := map (\<lambda>(k, live). (k, False)) (subscriptions r),
             element := None\<rparr>),
           subscribed := removeAll x (subscribed s),
           arrays := (arrays s)(next_array s \<mapsto> filter (\<lambda>reg. reg \<noteq> x) (array_of s (regions s))),
           next_array := Suc (next_array s),
           regions := next_array s,
           emitted := emitted s @ [RegionRemoved x],
           scroll_listeners := (if x \<in> set (remove_once s) then removeAll x (scroll_listeners s)
                            else scroll_listeners s),
           remove_once := removeAll x (remove_once s),
           children := removeAll x (children s),
           dom_log := dom_log s @ (if x \<in> set (children s) then [Detach x] else [])\<rparr>)"
  using r p
  by (simp add: region_remove_def remove_alive [OF e] deliver_def notify_Remove_subscribed
      remove_element_def array_of_def)

lemma element_2_4: "element (SingleRegion (interval 2 4) 10) =
     Some \<lparr>style_left = Some (left_percent 2 10), style_right = Some (right_percent 4 10),
        style_cursor = Grab, backgroundColor = ''rgba(0, 0, 0, 0.1)'', part_marker = False,
        handles = True\<rparr>"
  by (simp add: SingleRegion_2_4)

lemma subscribed_timers_run_2_4: "subscribed (run_timers plugin_2_4) = [0]"
  by (simp add: run_timers_def run_timer_def renderIfVisible_def appendChild_def
      plugin_2_4_fields visible_2_4 Let_def)

text \<open>
  What \<^verbatim>\<open>remove()\<close> has done when it returns, for a region that the plugin has saved
  and that has not been removed before: one \<^verbatim>\<open>remove\<close> event, every draggable
  unsubscribed, the element out of the container and \<^verbatim>\<open>this.element\<close> set to
  \<^verbatim>\<open>null\<close>, the region out of the collection, \<^verbatim>\<open>region-removed\<close> emitted once,
  the listeners of \<^verbatim>\<open>saveRegion\<close> unsubscribed, and the \<^verbatim>\<open>scroll\<close> listener
  unsubscribed if the timer of \<^verbatim>\<open>virtualAppend\<close> had run. The timers are as they
  were. As long as the element stays out of the container, no drag, resize or mouse event
  reaches the region. The region object itself is not disabled: \<^verbatim>\<open>play()\<close> still
  emits \<^verbatim>\<open>play\<close>, which the plugin does not act on any more.
\<close>

lemma remove_returns:
  assumes "heap s x = Some r" and "element r = Some e" and "x \<in> set (subscribed s)"
  shows "\<exists>s' r'. region_remove s x = Ok s' \<and> heap s' x = Some r' \<and>
     events r' = events r @ [Remove] \<and>
     list_all (\<lambda>(k, live). \<not> live) (subscriptions r') \<and>
     element r' = None \<and>
     x \<notin> set (children s') \<and>
     x \<notin> set (array_of s' (regions s')) \<and>
     x \<notin> set (subscribed s') \<and>
     emitted s' = emitted s @ [RegionRemoved x] \<and>
     (x \<in> set (remove_once s) \<longrightarrow> x \<notin> set (scroll_listeners s')) \<and>
     timers s' = timers s \<and>
     (\<forall>dx. pointer_move s' x dx = s') \<and>
     (\<forall>dx sd. pointer_resize s' x dx sd = s') \<and>
     (\<forall>m. mouse_event s' x m = s') \<and>
     map_option events (heap (region_play s' x) x) = Some (events r @ [Remove, Play]) \<and>
     emitted (region_play s' x) = emitted s'"
  unfolding region_remove_persisted [OF assms]
  by (simp add: array_of_def list_all_iff pointer_move_def pointer_resize_def mouse_event_def
      region_play_def play_def emit_def deliver_def notify_def split_beta)

subsection \<open>C8: removal\<close>

text \<open>The region \<open>[2, 4]\<close> removed before the timer of \<^verbatim>\<open>virtualAppend\<close> has run.\<close>

lemma removed_early_eq:
  "removed_early =
     plugin_2_4\<lparr>heap := (heap plugin_2_4)(0 \<mapsto> (SingleRegion (interval 2 4) 10)
         \<lparr>events := [Remove],
          subscriptions := [(ResizeStartSub, False), (ResizeEndSub, False), (DragSub, False)],
          element := None\<rparr>),
       subscribed := [],
       arrays := (arrays plugin_2_4)(2 \<mapsto> []),
       next_array := 3,
       regions := 2,
       emitted := [RegionCreated 0, RegionRemoved 0],
       scroll_listeners := [],
       remove_once := [],
       children := [],
       dom_log := []\<rparr>"
proof -
  have s: "0 \<in> set (subscribed plugin_2_4)" by (simp add: plugin_2_4_fields)
  show ?thesis
    unfolding removed_early_def region_remove_persisted [OF plugin_2_4_fields(2) element_2_4 s]
    by (simp add: plugin_2_4_fields array_of_def SingleRegion_2_4)
qed

lemma removed_then_timer_fields:
  "heap removed_then_timer 0 = Some ((SingleRegion (interval 2 4) 10)
         \<lparr>events := [Remove],
          subscriptions := [(ResizeStartSub, False), (ResizeEndSub, False), (DragSub, False)],
          element := None\<rparr>)"
  "children removed_then_timer = [0]"
  "dom_log removed_then_timer = [Attach 0]"
  "scroll_listeners removed_then_timer = [0]"
  "subscribed removed_then_timer = []"
  "emitted removed_then_timer = [RegionCreated 0, RegionRemoved 0]"
proof -
  have v: "isVisible host10 ((SingleRegion (interval 2 4) 10)
         \<lparr>events := [Remove],
          subscriptions := [(ResizeStartSub, False), (ResizeEndSub, False), (DragSub, False)],
          element := None\<rparr>)"
    using visible_2_4 by (simp add: isVisible_def)
  show "heap removed_then_timer 0 = Some ((SingleRegion (interval 2 4) 10)
         \<lparr>events := [Remove],
          subscriptions := [(ResizeStartSub, False), (ResizeEndSub, False), (DragSub, False)],
          element := None\<rparr>)"
    "children removed_then_timer = [0]"
    "dom_log removed_then_timer = [Attach 0]"
    "scroll_listeners removed_then_timer = [0]"
    "subscribed removed_then_timer = []"
    "emitted removed_then_timer = [RegionCreated 0, RegionRemoved 0]"
    by (simp_all add: removed_then_timer_def removed_early_eq run_timers_def run_timer_def
        renderIfVisible_def appendChild_def plugin_2_4_fields v Let_def)
qed

text \<open>
  C8 fails in the code. The region \<open>[2, 4]\<close> is added on the host of 10 seconds: it is in
  the collection, and the timer of \<^verbatim>\<open>virtualAppend\<close> is set with its element. The
  caller removes the region before the timer runs: \<^verbatim>\<open>remove()\<close> returns normally, the
  region has emitted \<^verbatim>\<open>remove\<close>, it is out of the collection and its element is not in
  the container. Then the timer runs: \<^verbatim>\<open>renderIfVisible\<close> appends the element of the
  removed region to the container and is subscribed to \<^verbatim>\<open>scroll\<close>; the
  \<^verbatim>\<open>once('remove', unsubscribe)\<close> that would release it is subscribed after the only
  \<^verbatim>\<open>remove\<close> event. A click on the element then makes the removed region emit
  \<^verbatim>\<open>click\<close>. So after \<^verbatim>\<open>remove()\<close> the element is attached, a subscription is
  held, and the region emits.
\<close>

theorem remove_before_timer:
  "array_of plugin_2_4 (regions plugin_2_4) = [0] \<and>
   timers plugin_2_4 = [(0, True)] \<and>
   thrown (region_remove plugin_2_4 0) = None \<and>
   map_option events (heap removed_early 0) = Some [Remove] \<and>
   map_option element (heap removed_early 0) = Some None \<and>
   array_of removed_early (regions removed_early) = [] \<and>
   children removed_early = [] \<and>
   scroll_listeners removed_early = [] \<and>
   children removed_then_timer = [0] \<and>
   dom_log removed_then_timer = [Attach 0] \<and>
   scroll_listeners removed_then_timer = [0] \<and>
   map_option events (heap removed_then_clicked 0) = Some [Remove, Click]"
proof -
  have s: "0 \<in> set (subscribed plugin_2_4)" by (simp add: plugin_2_4_fields)
  have t: "thrown (region_remove plugin_2_4 0) = None"
    unfolding region_remove_persisted [OF plugin_2_4_fields(2) element_2_4 s] by simp
  have c: "map_option events (heap removed_then_clicked 0) = Some [Remove, Click]"
    by (simp add: removed_then_clicked_def mouse_event_def removed_then_timer_fields deliver_def
        emit_def notify_def)
  show ?thesis
    using t c
    by (simp add: removed_then_timer_fields plugin_2_4_fields array_of_def)
      (simp add: removed_early_eq array_of_def)
qed

subsection \<open>C9: the array that \<^verbatim>\<open>getRegions\<close> returns\<close>

text \<open>Virtualization reads no array: a write to an array commutes with it.\<close>

lemma renderIfVisible_array_write:
  "renderIfVisible (array_write s a xs) x = array_write (renderIfVisible s x) a xs"
  by (simp add: renderIfVisible_def array_write_def appendChild_def remove_element_def
      split: option.splits)

lemma run_timer_array_write:
  "run_timer (array_write s a xs) t = array_write (run_timer s t) a xs"
proof -
  have "run_timer (array_write s a xs) t =
      (case wavesurfer s of
         None \<Rightarrow> array_write s a xs
       | Some h \<Rightarrow>
           if \<not> snd t then array_write s a xs
           else (let s1 = array_write (renderIfVisible s (fst t)) a xs
                 in s1\<lparr>scroll_listeners := scroll_listeners s1 @ [fst t],
                       remove_once := remove_once s1 @ [fst t]\<rparr>))"
    unfolding run_timer_def renderIfVisible_array_write [symmetric]
    by (simp add: array_write_def)
  then show ?thesis
    by (simp add: run_timer_def array_write_def Let_def split: option.splits)
qed

lemma foldl_run_timer_array_write:
  "foldl run_timer (array_write s a xs) ts = array_write (foldl run_timer s ts) a xs"
  by (induction ts arbitrary: s) (simp_all add: run_timer_array_write)

lemma foldl_renderIfVisible_array_write:
  "foldl renderIfVisible (array_write s a xs) ys = array_write (foldl renderIfVisible s ys) a xs"
  by (induction ys arbitrary: s) (simp_all add: renderIfVisible_array_write)

lemma run_timers_array_write:
  "run_timers (array_write s a xs) = array_write (run_timers s) a xs"
proof -
  have "(array_write s a xs)\<lparr>timers := []\<rparr> = array_write (s\<lparr>timers := []\<rparr>) a xs"
    by (simp add: array_write_def)
  then show ?thesis
    unfolding run_timers_def
    by (simp add: foldl_run_timer_array_write) (simp add: array_write_def)
qed

lemma scroll_array_write:
  "scroll (array_write s a xs) pos = array_write (scroll s pos) a xs"
proof -
  have "(array_write s a xs)\<lparr>wavesurfer := w\<rparr> = array_write (s\<lparr>wavesurfer := w\<rparr>) a xs" for w
    by (simp add: array_write_def)
  then show ?thesis
    unfolding scroll_def Let_def
    by (simp add: foldl_renderIfVisible_array_write) (simp add: array_write_def)
qed

text \<open>\<^verbatim>\<open>clearRegions\<close> removes the regions that the collection holds when it is
  called.\<close>

lemma clearRegions_eq:
  "clearRegions s =
     (case remove_each (array_of s (regions s)) (snd (new_array (array_of s (regions s)) s)) of
        Ok s2 \<Rightarrow> Ok (s2\<lparr>arrays := (arrays s2)(next_array s2 \<mapsto> []),
                        next_array := Suc (next_array s2), regions := next_array s2\<rparr>)
      | Throw e s2 \<Rightarrow> Throw e s2)"
  by (simp add: clearRegions_def new_array_def array_of_def Let_def split: outcome.splits)

text \<open>\<^verbatim>\<open>clearRegions\<close> on the plugin with the region \<open>[2, 4]\<close>, and on that plugin
  after the caller has emptied the array it got from \<^verbatim>\<open>getRegions()\<close>.\<close>

lemma clearRegions_2_4:
  "map_option events (heap (state_of (clearRegions plugin_2_4)) 0) = Some [Remove]"
  "map_option events
     (heap (state_of (clearRegions (array_write plugin_2_4 (getRegions plugin_2_4) []))) 0) =
   Some []"
  by (simp_all add: clearRegions_eq getRegions_def array_write_def array_of_def new_array_def
      plugin_2_4_fields region_remove_def remove_def emit_def deliver_def notify_def
      remove_element_def emit_plugin_def SingleRegion_2_4 Let_def)

text \<open>
  C9, as stated, fails: \<^verbatim>\<open>getRegions\<close> returns \<^verbatim>\<open>this.regions\<close> itself. With the
  region \<open>[2, 4]\<close> in the collection a tick at 3 emits \<^verbatim>\<open>region-in\<close>, and
  \<^verbatim>\<open>clearRegions\<close> removes the region; after the caller has emptied the array it got
  from \<^verbatim>\<open>getRegions()\<close>, the same tick emits nothing, and \<^verbatim>\<open>clearRegions\<close> does
  not remove the region.
\<close>

theorem getRegions_alias_counterexample:
  "emitted (timeupdate plugin_2_4 3) = [RegionCreated 0, RegionIn 0] \<and>
   emitted (timeupdate (array_write plugin_2_4 (getRegions plugin_2_4) []) 3) =
     [RegionCreated 0] \<and>
   map_option events (heap (state_of (clearRegions plugin_2_4)) 0) = Some [Remove] \<and>
   map_option events
     (heap (state_of (clearRegions (array_write plugin_2_4 (getRegions plugin_2_4) []))) 0) =
   Some []"
proof -
  have a: "activeRegions (array_write plugin_2_4 (getRegions plugin_2_4) []) = Some (Suc 0)"
    "Suc 0 \<noteq> next_array (array_write plugin_2_4 (getRegions plugin_2_4) [])"
    "activeRegions plugin_2_4 = Some (Suc 0)" "Suc 0 \<noteq> next_array plugin_2_4"
    by (simp_all add: array_write_def plugin_2_4_fields)
  have "emitted (timeupdate plugin_2_4 3) = [RegionCreated 0, RegionIn 0] \<and>
   emitted (timeupdate (array_write plugin_2_4 (getRegions plugin_2_4) []) 3) =
     [RegionCreated 0]"
    by (simp add: timeupdate_eq [OF a(1,2)] timeupdate_eq [OF a(3,4)] played_2_4)
       (simp add: array_write_def getRegions_def playedRegions_def array_of_def plugin_2_4_fields)
  then show ?thesis by (simp add: clearRegions_2_4)
qed

text \<open>
  C9, amended. \<^verbatim>\<open>getRegions()\<close> returns the array object that is the collection, not
  a copy. After the caller has changed the elements of the returned array to \<open>xs\<close>, the
  collection is \<open>xs\<close>: playback tracking filters \<open>xs\<close>, and \<^verbatim>\<open>clearRegions\<close> removes
  the regions of \<open>xs\<close>, in their order, and, when no removal throws, replaces the
  collection by a new empty array. Virtualization does not read the collection: the
  timers of \<^verbatim>\<open>virtualAppend\<close> and the recomputation on \<^verbatim>\<open>scroll\<close> do what they do
  without the change. The returned array stops being the collection when the plugin
  replaces \<^verbatim>\<open>this.regions\<close>, as the removal of a saved region does: a change of the
  array returned before has no effect on the collection then.
\<close>

theorem getRegions_is_collection:
  "getRegions s = regions s \<and>
   array_of (array_write s (getRegions s) xs) (regions (array_write s (getRegions s) xs)) = xs \<and>
   playedRegions (array_write s (getRegions s) xs) t =
     filter (\<lambda>x. case heap s x of Some region \<Rightarrow> played region t | None \<Rightarrow> False) xs \<and>
   clearRegions (array_write s (getRegions s) xs) =
     (case remove_each xs (snd (new_array xs (array_write s (getRegions s) xs))) of
        Ok s2 \<Rightarrow> Ok (s2\<lparr>arrays := (arrays s2)(next_array s2 \<mapsto> []),
                        next_array := Suc (next_array s2), regions := next_array s2\<rparr>)
      | Throw err s2 \<Rightarrow> Throw err s2) \<and>
   run_timers (array_write s (getRegions s) xs) = array_write (run_timers s) (getRegions s) xs \<and>
   scroll (array_write s (getRegions s) xs) pos =
     array_write (scroll s pos) (getRegions s) xs \<and>
   children (run_timers (array_write s (getRegions s) xs)) = children (run_timers s) \<and>
   dom_log (run_timers (array_write s (getRegions s) xs)) = dom_log (run_timers s) \<and>
   children (scroll (array_write s (getRegions s) xs) pos) = children (scroll s pos) \<and>
   dom_log (scroll (array_write s (getRegions s) xs) pos) = dom_log (scroll s pos) \<and>
   (heap s x = Some r \<longrightarrow> element r = Some e \<longrightarrow> x \<in> set (subscribed s) \<longrightarrow>
    regions s < next_array s \<longrightarrow>
      (\<exists>s'. region_remove s x = Ok s' \<and> regions s' \<noteq> getRegions s \<and>
         array_of (array_write s' (getRegions s) xs) (regions s') = array_of s' (regions s')))"
proof -
  have a: "\<exists>s'. region_remove s x = Ok s' \<and> regions s' \<noteq> getRegions s \<and>
         array_of (array_write s' (getRegions s) xs) (regions s') = array_of s' (regions s')"
    if "heap s x = Some r" "element r = Some e" "x \<in> set (subscribed s)"
      "regions s < next_array s"
    unfolding region_remove_persisted [OF that(1-3)]
    using that(4) by (simp add: getRegions_def array_write_def array_of_def)
  have b: "array_of (array_write s (getRegions s) xs)
      (regions (array_write s (getRegions s) xs)) = xs"
    by (simp add: getRegions_def array_write_def array_of_def)
  have c: "clearRegions (array_write s (getRegions s) xs) =
     (case remove_each xs (snd (new_array xs (array_write s (getRegions s) xs))) of
        Ok s2 \<Rightarrow> Ok (s2\<lparr>arrays := (arrays s2)(next_array s2 \<mapsto> []),
                        next_array := Suc (next_array s2), regions := next_array s2\<rparr>)
      | Throw err s2 \<Rightarrow> Throw err s2)"
    unfolding clearRegions_eq [of "array_write s (getRegions s) xs"] b by (rule refl)
  have d: "playedRegions (array_write s (getRegions s) xs) t =
     filter (\<lambda>x. case heap s x of Some region \<Rightarrow> played region t | None \<Rightarrow> False) xs"
    by (simp add: getRegions_def array_write_def array_of_def playedRegions_def)
  have f: "children (array_write s' a xs) = children s'"
    "dom_log (array_write s' a xs) = dom_log s'" for s' a
    by (simp_all add: array_write_def)
  have g: "getRegions s = regions s" by (simp add: getRegions_def)
  show ?thesis
    using a b c d g
    by (simp add: run_timers_array_write scroll_array_write f)
qed

text \<open>Witness for C9 amended: the plugin with the region \<open>[2, 4]\<close>, attached. The array
  is emptied: the collection is empty, a tick at 3 finds no region, \<^verbatim>\<open>clearRegions\<close>
  leaves the region as it is, and a \<^verbatim>\<open>scroll\<close> changes the container as it does
  without the change. In a second run the region is removed and the array returned before
  is written.\<close>

theorem getRegions_is_collection_witness:
  "heap (run_timers plugin_2_4) 0 = Some (SingleRegion (interval 2 4) 10) \<and>
   element (SingleRegion (interval 2 4) 10) =
     Some \<lparr>style_left = Some (left_percent 2 10), style_right = Some (right_percent 4 10),
        style_cursor = Grab, backgroundColor = ''rgba(0, 0, 0, 0.1)'', part_marker = False,
        handles = True\<rparr> \<and>
   0 \<in> set (subscribed (run_timers plugin_2_4)) \<and>
   regions (run_timers plugin_2_4) < next_array (run_timers plugin_2_4) \<and>
   array_of (array_write (run_timers plugin_2_4) (getRegions (run_timers plugin_2_4)) [])
     (regions (array_write (run_timers plugin_2_4) (getRegions (run_timers plugin_2_4)) [])) = [] \<and>
   playedRegions (array_write (run_timers plugin_2_4) (getRegions (run_timers plugin_2_4)) []) 3 =
     [] \<and>
   (\<exists>s2. clearRegions
        (array_write (run_timers plugin_2_4) (getRegions (run_timers plugin_2_4)) []) = Ok s2 \<and>
      children s2 = [0] \<and> heap s2 0 = Some (SingleRegion (interval 2 4) 10)) \<and>
   children (scroll (array_write (run_timers plugin_2_4) (getRegions (run_timers plugin_2_4)) [])
     0) = children (scroll (run_timers plugin_2_4) 0) \<and>
   (\<exists>s'. region_remove (run_timers plugin_2_4) 0 = Ok s' \<and>
      regions s' \<noteq> getRegions (run_timers plugin_2_4) \<and>
      array_of (array_write s' (getRegions (run_timers plugin_2_4)) [7]) (regions s') =
        array_of s' (regions s'))"
proof -
  let ?S = "run_timers plugin_2_4"
  let ?e = "\<lparr>style_left = Some (left_percent 2 10), style_right = Some (right_percent 4 10),
          style_cursor = Grab, backgroundColor = ''rgba(0, 0, 0, 0.1)'', part_marker = False,
          handles = True\<rparr>"
  have s: "0 \<in> set (subscribed ?S)"
    by (simp add: subscribed_timers_run_2_4)
  have n: "regions ?S < next_array ?S"
    by (simp add: run_timers_def run_timer_def renderIfVisible_def appendChild_def
        plugin_2_4_fields visible_2_4 Let_def)
  have c: "children (array_write ?S (getRegions ?S) []) = [0]"
    "heap (array_write ?S (getRegions ?S) []) 0 = Some (SingleRegion (interval 2 4) 10)"
    by (simp_all add: array_write_def timers_run_2_4)
  let ?A = "array_write ?S (getRegions ?S) []"
  have "clearRegions ?A =
     (case remove_each [] (snd (new_array [] ?A)) of
        Ok s2 \<Rightarrow> Ok (s2\<lparr>arrays := (arrays s2)(next_array s2 \<mapsto> []),
                        next_array := Suc (next_array s2), regions := next_array s2\<rparr>)
      | Throw err s2 \<Rightarrow> Throw err s2)"
    by (rule conjunct1 [OF conjunct2 [OF conjunct2 [OF conjunct2 [OF
      getRegions_is_collection [of ?S "[]" 3 0 0 "SingleRegion (interval 2 4) 10" ?e]]]]])
  then have "clearRegions ?A =
      Ok ((snd (new_array [] ?A))\<lparr>arrays := (arrays (snd (new_array [] ?A)))
            (next_array (snd (new_array [] ?A)) \<mapsto> []),
          next_array := Suc (next_array (snd (new_array [] ?A))),
          regions := next_array (snd (new_array [] ?A))\<rparr>)"
    by simp
  then have k: "\<exists>s2. clearRegions ?A = Ok s2 \<and>
      children s2 = [0] \<and> heap s2 0 = Some (SingleRegion (interval 2 4) 10)"
    using c by (simp add: new_array_def)
  have r: "\<exists>s'. region_remove ?S 0 = Ok s' \<and> regions s' \<noteq> getRegions ?S \<and>
      array_of (array_write s' (getRegions ?S) [7]) (regions s') = array_of s' (regions s')"
    using getRegions_is_collection [of ?S "[7]" 3 0 0 "SingleRegion (interval 2 4) 10" ?e]
      s n timers_run_2_4(2) element_2_4
    by blast
  note T = getRegions_is_collection [of ?S "[]" 3 0 0 "SingleRegion (interval 2 4) 10" ?e]
  have a1: "array_of ?A (regions ?A) = []"
    using T by (elim conjE)
  have "playedRegions ?A 3 =
      filter (\<lambda>x. case heap ?S x of Some region \<Rightarrow> played region 3 | None \<Rightarrow> False) []"
    using T by (elim conjE)
  then have a2: "playedRegions ?A 3 = []" by simp
  have a3: "children (scroll ?A 0) = children (scroll ?S 0)"
    using T by (elim conjE)
  show ?thesis
    using s n timers_run_2_4(2) element_2_4 a1 a2 a3 k r by blast
qed

subsection \<open>The hypotheses on the state hold in a plugin that the host has registered\<close>

text \<open>\<open>fresh_arrays\<close>, \<open>refs_below\<close> and \<open>pending_alive\<close> hold after \<^verbatim>\<open>create\<close> and
  \<^verbatim>\<open>onInit\<close>, and \<^verbatim>\<open>addRegion\<close> keeps them, as \<^verbatim>\<open>timeupdate\<close> keeps the
  first. \<^verbatim>\<open>remove\<close> on a region that waits for \<^verbatim>\<open>ready\<close> does not keep
  \<open>pending_alive\<close>: the plugin \<open>blocked\<close> above is reached that way.\<close>

lemma init_create:
  "init create h = Ok (create\<lparr>wavesurfer := Some h, arrays := [0 \<mapsto> [], Suc 0 \<mapsto> []],
     next_array := 2, activeRegions := Some (Suc 0)\<rparr>)"
  by (simp add: init_def onInit_def new_array_def create_def numeral_2_eq_2)

lemma invariants_init:
  "fresh_arrays (state_of (init create h))"
  "refs_below (state_of (init create h))"
  "pending_alive (state_of (init create h))"
  unfolding init_create state_of.simps
  by (simp_all add: fresh_arrays_def refs_below_def pending_alive_def create_def array_of_def)

lemma addRegion_cases:
  assumes "addRegion s p = Inr (x, s')"
  shows "x = next_ref s \<and>
     (s' = s\<lparr>heap := (heap s)(x \<mapsto> SingleRegion p 0), next_ref := Suc x,
             ready_once := ready_once s @ [x]\<rparr> \<or>
      (\<exists>d. s' = saveRegion (s\<lparr>heap := (heap s)(x \<mapsto> SingleRegion p d), next_ref := Suc x\<rparr>) x))"
  using assms by (auto simp: addRegion_def Let_def split: option.splits if_splits)

lemma fresh_arrays_addRegion:
  assumes "addRegion s p = Inr (x, s')" and "fresh_arrays s"
  shows "fresh_arrays s'"
  using addRegion_cases [OF assms(1)] assms(2)
  by (auto simp: saveRegion_eq fresh_arrays_def split: option.splits)

lemma refs_below_addRegion:
  assumes "addRegion s p = Inr (x, s')" and "refs_below s"
  shows "refs_below s'"
proof -
  have b: "\<forall>y\<in>set (array_of s (regions s)). y < Suc (next_ref s)"
    "\<forall>y\<in>set (ready_once s). y < Suc (next_ref s)"
    using assms(2) by (auto simp: refs_below_def list_all_iff less_Suc_eq)
  have c: "array_of s1 a = array_of s2 a" if "arrays s1 = arrays s2" for s1 s2 a
    using that by (simp add: array_of_def)
  from addRegion_cases [OF assms(1)] show ?thesis
  proof (elim conjE disjE exE)
    assume s': "s' = s\<lparr>heap := (heap s)(x \<mapsto> SingleRegion p 0), next_ref := Suc x,
             ready_once := ready_once s @ [x]\<rparr>" and x: "x = next_ref s"
    have "array_of s' (regions s') = array_of s (regions s)"
      unfolding s' by (simp add: array_of_def)
    then show ?thesis
      using b x by (simp add: refs_below_def list_all_iff s')
  next
    fix d
    assume s': "s' = saveRegion (s\<lparr>heap := (heap s)(x \<mapsto> SingleRegion p d), next_ref := Suc x\<rparr>) x"
      and x: "x = next_ref s"
    have "array_of s' (regions s') = array_of s (regions s) @ [x]"
      unfolding s' by (simp add: saveRegion_eq array_of_def)
    then show ?thesis
      using b x by (simp add: refs_below_def list_all_iff s' saveRegion_eq)
  qed
qed

lemma pending_alive_addRegion:
  assumes "addRegion s p = Inr (x, s')" and "pending_alive s"
  shows "pending_alive s'"
proof -
  have a: "alive (s\<lparr>heap := (heap s)(x \<mapsto> SingleRegion p d)\<rparr>) y" if "alive s y \<or> y = x" for y d
    using that element_SingleRegion [of p d] by (auto simp: alive_def split: option.splits)
  have c: "alive s1 = alive s2" if "heap s1 = heap s2" for s1 s2
    using that by (simp add: alive_def fun_eq_iff)
  have p: "\<forall>y\<in>set (ready_once s). alive s y"
    using assms(2) by (simp add: pending_alive_def list_all_iff)
  from addRegion_cases [OF assms(1)] show ?thesis
  proof (elim conjE disjE exE)
    assume "s' = s\<lparr>heap := (heap s)(x \<mapsto> SingleRegion p 0), next_ref := Suc x,
             ready_once := ready_once s @ [x]\<rparr>"
    moreover have "alive \<dots> = alive (s\<lparr>heap := (heap s)(x \<mapsto> SingleRegion p 0)\<rparr>)"
      by (rule c) simp
    ultimately show ?thesis
      using a [of _ 0] p by (simp add: pending_alive_def list_all_iff)
  next
    fix d
    assume "s' = saveRegion (s\<lparr>heap := (heap s)(x \<mapsto> SingleRegion p d), next_ref := Suc x\<rparr>) x"
    moreover have "alive \<dots> = alive (s\<lparr>heap := (heap s)(x \<mapsto> SingleRegion p d)\<rparr>)"
      by (rule c) (simp add: saveRegion_eq)
    ultimately show ?thesis
      using a [of _ d] p by (simp add: pending_alive_def list_all_iff saveRegion_eq)
  qed
qed

end
